theory Spec2Isabelle
  imports Complex_Main "HOL-Library.AList"
begin

section \<open>Python values, exceptions and dictionaries\<close>

text \<open>
  The service is written in Python: every request and every result is a dictionary of
  loosely typed values. A value is \<open>None\<close>, a boolean, an unbounded integer, a float, a
  string, a timestamp of the store, a list or a dictionary with string keys. A dictionary
  is an association list with distinct keys in insertion order, as Python keeps it.
  A float is represented by the rational number it denotes.
\<close>

datatype pyval =
    PNone
  | PBool bool
  | PInt int
  | PFloat rat
  | PStr string
  | PDatetime nat
  | PList "pyval list"
  | PDict "(string \<times> pyval) list"

type_synonym pydict = "(string \<times> pyval) list"

text \<open>
  An exception carries its class and its message (\<open>str(e)\<close>). Only the class
  \<open>JSONDecodeError\<close> is ever tested by the code (\<open>except json.JSONDecodeError\<close>);
  every other handler is \<open>except Exception\<close>.
\<close>

datatype exn_kind =
  JSONDecodeError | TypeError | AttributeError | ZeroDivisionError | ValueError | NotFound | OtherError

datatype exn = Exn (kind: exn_kind) (str_exn: string)

text \<open>Truth value of a Python object, as \<open>if x:\<close>, \<open>x and y\<close>, \<open>x or y\<close> and \<open>not x\<close> use it.\<close>

fun truthy :: "pyval \<Rightarrow> bool" where
  "truthy PNone = False"
| "truthy (PBool b) = b"
| "truthy (PInt i) = (i \<noteq> 0)"
| "truthy (PFloat r) = (r \<noteq> 0)"
| "truthy (PStr s) = (s \<noteq> [])"
| "truthy (PDatetime t) = True"
| "truthy (PList xs) = (xs \<noteq> [])"
| "truthy (PDict kv) = (kv \<noteq> [])"

text \<open>Lists and dictionaries cannot be keys of a dictionary: \<open>x in d\<close> raises on them.\<close>

fun hashable :: "pyval \<Rightarrow> bool" where
  "hashable (PList xs) = False"
| "hashable (PDict kv) = False"
| "hashable v = True"

text \<open>\<open>d.get(k, default)\<close> on a dictionary; on any other object the attribute is missing.\<close>

definition dict_get :: "pydict \<Rightarrow> string \<Rightarrow> pyval \<Rightarrow> pyval" where
  "dict_get d k dflt = (case map_of d k of None \<Rightarrow> dflt | Some v \<Rightarrow> v)"

definition py_get :: "pyval \<Rightarrow> string \<Rightarrow> pyval \<Rightarrow> exn + pyval" where
  "py_get x k dflt =
     (case x of
        PDict d \<Rightarrow> Inr (dict_get d k dflt)
      | _ \<Rightarrow> Inl (Exn AttributeError ''object has no attribute 'get' ''))"

text \<open>\<open>d[k] = v\<close> and \<open>d.update(other)\<close>.\<close>

definition dict_set :: "pydict \<Rightarrow> string \<Rightarrow> pyval \<Rightarrow> pydict" where
  "dict_set d k v = AList.update k v d"

definition dict_update :: "pydict \<Rightarrow> pydict \<Rightarrow> pydict" where
  "dict_update d other = foldl (\<lambda>acc (k, v). dict_set acc k v) d other"

subsection \<open>Strings\<close>

text \<open>
  \<open>str.strip()\<close> removes leading and trailing whitespace. Among the characters of a
  \<open>string\<close> here (code points below 256) Python's whitespace is: tab, line feed,
  vertical tab, form feed, carriage return, the separators 28 to 31, space, 133 and 160.
\<close>

definition is_space :: "char \<Rightarrow> bool" where
  "is_space c =
     (let n = (of_char c :: nat)
      in (9 \<le> n \<and> n \<le> 13) \<or> (28 \<le> n \<and> n \<le> 32) \<or> n = 133 \<or> n = 160)"

definition strip :: "string \<Rightarrow> string" where
  "strip s = rev (dropWhile is_space (rev (dropWhile is_space s)))"

text \<open>Decimal text of an integer, as \<open>str(n)\<close> gives it.\<close>

fun str_nat :: "nat \<Rightarrow> string" where
  "str_nat n =
     (if n < 10 then [char_of (48 + n)]
      else str_nat (n div 10) @ [char_of (48 + n mod 10)])"

declare str_nat.simps [simp del]

definition str_int :: "int \<Rightarrow> string" where
  "str_int i = (if i < 0 then CHR ''-'' # str_nat (nat (- i)) else str_nat (nat i))"

text \<open>
  \<open>str(x)\<close>, which an f-string applies to each interpolated value. The text of a float,
  a timestamp, a list or a dictionary is produced by the interpreter's \<open>repr\<close>
  machinery; it is a parameter \<open>r\<close> of the model.
\<close>

definition py_str :: "(pyval \<Rightarrow> string) \<Rightarrow> pyval \<Rightarrow> string" where
  "py_str r v =
     (case v of
        PNone \<Rightarrow> ''None''
      | PBool b \<Rightarrow> (if b then ''True'' else ''False'')
      | PInt i \<Rightarrow> str_int i
      | PStr s \<Rightarrow> s
      | _ \<Rightarrow> r v)"

text \<open>\<open>needle in haystack\<close> on strings.\<close>

fun is_prefix :: "string \<Rightarrow> string \<Rightarrow> bool" where
  "is_prefix [] ys = True"
| "is_prefix (x # xs) [] = False"
| "is_prefix (x # xs) (y # ys) = (x = y \<and> is_prefix xs ys)"

fun contains :: "string \<Rightarrow> string \<Rightarrow> bool" where
  "contains needle [] = (needle = [])"
| "contains needle (y # ys) = (is_prefix needle (y # ys) \<or> contains needle ys)"


text \<open>\<open>str.lower()\<close> on the letters of a \<open>string\<close>: A to Z, and the accented capitals 192 to 222 but 215.\<close>

definition lower_char :: "char \<Rightarrow> char" where
  "lower_char c =
     (let n = (of_char c :: nat)
      in if (65 \<le> n \<and> n \<le> 90) \<or> (192 \<le> n \<and> n \<le> 222 \<and> n \<noteq> 215) then char_of (n + 32) else c)"

definition lower :: "string \<Rightarrow> string" where
  "lower s = map lower_char s"

text \<open>
  \<open>a == b\<close>: numbers compare by value across \<open>bool\<close>, \<open>int\<close> and \<open>float\<close>; other values
  compare structurally.
\<close>

fun num_val :: "pyval \<Rightarrow> rat option" where
  "num_val (PBool b) = Some (if b then 1 else 0)"
| "num_val (PInt i) = Some (of_int i)"
| "num_val (PFloat r) = Some r"
| "num_val v = None"

definition py_eq :: "pyval \<Rightarrow> pyval \<Rightarrow> bool" where
  "py_eq a b =
     (case (num_val a, num_val b) of
        (Some x, Some y) \<Rightarrow> x = y
      | _ \<Rightarrow> a = b)"

section \<open>The external collaborators and the state of the world\<close>

text \<open>
  What the code does not decide is a parameter: the reply of the hosted model to a prompt
  (\<open>generate_content(prompt).text\<close>, or the exception the call raises), the standard
  library's \<open>json.loads\<close> and \<open>repr\<close>, whether the n-th call to the document store fails
  (network, permissions), the identifier the store assigns to a new document, and the
  text of the clock.
\<close>

record env =
  generate_content :: "string \<Rightarrow> exn + string"
  json_loads :: "string \<Rightarrow> exn + pyval"
  repr_other :: "pyval \<Rightarrow> string"
  store_fault :: "nat \<Rightarrow> exn option"
  new_id :: "nat \<Rightarrow> string"
  isoformat :: "nat \<Rightarrow> string"

text \<open>
  The state: the two collections of the document store (each a list of documents with
  their identifiers, in the order the store streams them), the calls issued to the store
  so far, the prompts sent to the hosted model so far, and the clock.
\<close>

datatype store_call =
    StoreAdd string
  | StoreStream string
  | StoreGet string string
  | StoreUpdate string string
  | StoreDelete string string

record world =
  products :: "(string \<times> pydict) list"
  orders :: "(string \<times> pydict) list"
  store_calls :: "store_call list"
  prompts :: "string list"
  clock :: nat

definition collection :: "world \<Rightarrow> string \<Rightarrow> (string \<times> pydict) list" where
  "collection w name = (if name = ''products'' then products w else orders w)"

definition set_collection :: "string \<Rightarrow> (string \<times> pydict) list \<Rightarrow> world \<Rightarrow> world" where
  "set_collection name docs w =
     (if name = ''products'' then w\<lparr>products := docs\<rparr> else w\<lparr>orders := docs\<rparr>)"

text \<open>\<open>datetime.utcnow()\<close> reads the clock; the clock moves on with every remote call.\<close>

definition utcnow :: "world \<Rightarrow> nat" where
  "utcnow w = clock w"

text \<open>\<open>model.generate_content(prompt).text\<close>: the prompt is sent, the reply or the failure comes back.\<close>

definition call_model :: "env \<Rightarrow> string \<Rightarrow> world \<Rightarrow> (exn + string) \<times> world" where
  "call_model E prompt w =
     (generate_content E prompt, w\<lparr>prompts := prompts w @ [prompt], clock := Suc (clock w)\<rparr>)"

subsection \<open>The document store\<close>

text \<open>
  Every call to the store is recorded; the call fails when the environment says so, and
  then changes nothing.
\<close>

definition store_enter :: "env \<Rightarrow> store_call \<Rightarrow> world \<Rightarrow> exn option \<times> world" where
  "store_enter E c w =
     (store_fault E (length (store_calls w)),
      w\<lparr>store_calls := store_calls w @ [c], clock := Suc (clock w)\<rparr>)"

text \<open>
  \<open>collection.document(x)\<close>: a non-empty string without a slash names a document;
  \<open>None\<close> makes a reference with a newly generated identifier; anything else is
  rejected (by the client library or by the server).
\<close>

definition document :: "env \<Rightarrow> world \<Rightarrow> pyval \<Rightarrow> exn + string" where
  "document E w x =
     (case x of
        PStr s \<Rightarrow> (if s = [] \<or> CHR ''/'' \<in> set s then Inl (Exn ValueError ''invalid document path'') else Inr s)
      | PNone \<Rightarrow> Inr (new_id E (length (store_calls w)))
      | _ \<Rightarrow> Inl (Exn ValueError ''invalid document path''))"

text \<open>\<open>collection.add(doc)\<close>: the store assigns the identifier.\<close>

definition store_add :: "env \<Rightarrow> string \<Rightarrow> pydict \<Rightarrow> world \<Rightarrow> (exn + string) \<times> world" where
  "store_add E coll doc w =
     (let (fault, w1) = store_enter E (StoreAdd coll) w
      in case fault of
           Some e \<Rightarrow> (Inl e, w1)
         | None \<Rightarrow>
             (let i = new_id E (length (store_calls w))
              in (Inr i, set_collection coll (collection w1 coll @ [(i, doc)]) w1)))"

text \<open>
  \<open>collection.where(field, '==', value)\<close> with optional \<open>.limit(l).offset(o)\<close>, then
  \<open>.stream()\<close>. The store skips \<open>o\<close> matching documents and yields at most \<open>l\<close>; a
  negative limit or offset is rejected.
\<close>

definition matching :: "world \<Rightarrow> string \<Rightarrow> string \<Rightarrow> pyval \<Rightarrow> (string \<times> pydict) list" where
  "matching w coll field v =
     filter (\<lambda>(i, d). case map_of d field of None \<Rightarrow> False | Some x \<Rightarrow> py_eq x v) (collection w coll)"

definition store_stream ::
  "env \<Rightarrow> string \<Rightarrow> string \<Rightarrow> pyval \<Rightarrow> (int \<times> int) option \<Rightarrow> world \<Rightarrow> (exn + (string \<times> pydict) list) \<times> world" where
  "store_stream E coll field v page w =
     (let (fault, w1) = store_enter E (StoreStream coll) w
      in case fault of
           Some e \<Rightarrow> (Inl e, w1)
         | None \<Rightarrow>
             (case page of
                None \<Rightarrow> (Inr (matching w1 coll field v), w1)
              | Some (l, off) \<Rightarrow>
                  if l < 0 \<or> off < 0 then (Inl (Exn ValueError ''invalid limit or offset''), w1)
                  else (Inr (take (nat l) (drop (nat off) (matching w1 coll field v))), w1)))"

text \<open>\<open>document(id).get()\<close>: the fields, or nothing when the document does not exist.\<close>

definition store_get :: "env \<Rightarrow> string \<Rightarrow> pyval \<Rightarrow> world \<Rightarrow> (exn + (string \<times> pydict) option) \<times> world" where
  "store_get E coll x w =
     (case document E w x of
        Inl e \<Rightarrow> (Inl e, w)
      | Inr i \<Rightarrow>
          (let (fault, w1) = store_enter E (StoreGet coll i) w
           in case fault of
                Some e \<Rightarrow> (Inl e, w1)
              | None \<Rightarrow> (Inr (map_option (\<lambda>d. (i, d)) (map_of (collection w1 coll) i)), w1)))"

text \<open>\<open>document(id).update(fields)\<close>: overwrites the given fields; fails when the document does not exist.\<close>

definition store_update :: "env \<Rightarrow> string \<Rightarrow> pyval \<Rightarrow> pydict \<Rightarrow> world \<Rightarrow> (exn + unit) \<times> world" where
  "store_update E coll x upd w =
     (case document E w x of
        Inl e \<Rightarrow> (Inl e, w)
      | Inr i \<Rightarrow>
          (let (fault, w1) = store_enter E (StoreUpdate coll i) w
           in case fault of
                Some e \<Rightarrow> (Inl e, w1)
              | None \<Rightarrow>
                  (case map_of (collection w1 coll) i of
                     None \<Rightarrow> (Inl (Exn NotFound ''no document to update''), w1)
                   | Some d \<Rightarrow>
                       (Inr (), set_collection coll (AList.update i (dict_update d upd) (collection w1 coll)) w1))))"

text \<open>\<open>document(id).delete()\<close>: removes the document; deleting a missing document is no error.\<close>

definition store_delete :: "env \<Rightarrow> string \<Rightarrow> pyval \<Rightarrow> world \<Rightarrow> (exn + unit) \<times> world" where
  "store_delete E coll x w =
     (case document E w x of
        Inl e \<Rightarrow> (Inl e, w)
      | Inr i \<Rightarrow>
          (let (fault, w1) = store_enter E (StoreDelete coll i) w
           in case fault of
                Some e \<Rightarrow> (Inl e, w1)
              | None \<Rightarrow> (Inr (), set_collection coll (AList.delete i (collection w1 coll)) w1)))"


text \<open>
  \<open>query.order_by(field, direction=DESCENDING)\<close>: the documents that have the field,
  latest timestamp first.
\<close>

definition stamp_of :: "string \<Rightarrow> pydict \<Rightarrow> nat" where
  "stamp_of field d = (case map_of d field of Some (PDatetime t) \<Rightarrow> t | _ \<Rightarrow> 0)"

definition order_by_desc :: "string \<Rightarrow> (string \<times> pydict) list \<Rightarrow> (string \<times> pydict) list" where
  "order_by_desc field docs =
     rev (sort_key (\<lambda>(i, d). stamp_of field d) (filter (\<lambda>(i, d). map_of d field \<noteq> None) docs))"

section \<open>The document store adapter (firebase_client.py)\<close>

text \<open>\<open>datetime.utcnow().isoformat() + "Z"\<close>\<close>

definition timestamp :: "env \<Rightarrow> world \<Rightarrow> string" where
  "timestamp E w = isoformat E (utcnow w) @ ''Z''"

text \<open>
  \<open>FirebaseClient.create_product\<close>: stamps the document and adds it; an exception of the
  store is printed and raised again.
\<close>

definition create_product :: "env \<Rightarrow> pydict \<Rightarrow> world \<Rightarrow> (exn + string) \<times> world" where
  "create_product E product_data w =
     (let current_time = timestamp E w;
          d1 = dict_set product_data ''createdAt'' (PStr current_time);
          d2 = dict_set d1 ''updatedAt'' (PStr current_time)
      in store_add E ''products'' d2 w)"

text \<open>
  \<open>FirebaseClient.get_seller_products\<close>: counts the seller's documents with one stream,
  reads one page with a second one, and computes the number of pages by
  \<open>(total_products + limit - 1) // limit\<close>, which raises when \<open>limit\<close> is 0. Python's
  \<open>//\<close> on integers is the floor division \<open>div\<close>.
\<close>

definition with_id :: "string \<times> pydict \<Rightarrow> pyval" where
  "with_id doc = (case doc of (i, d) \<Rightarrow> PDict (dict_set d ''id'' (PStr i)))"

definition get_seller_products :: "env \<Rightarrow> pyval \<Rightarrow> int \<Rightarrow> int \<Rightarrow> world \<Rightarrow> (exn + pydict) \<times> world" where
  "get_seller_products E user_id page limit w =
     (let offset = (page - 1) * limit
      in case store_stream E ''products'' ''userId'' user_id None w of
           (Inl e, w1) \<Rightarrow> (Inl e, w1)
         | (Inr all_docs, w1) \<Rightarrow>
             (let total_products = int (length all_docs)
              in case store_stream E ''products'' ''userId'' user_id (Some (limit, offset)) w1 of
                   (Inl e, w2) \<Rightarrow> (Inl e, w2)
                 | (Inr docs, w2) \<Rightarrow>
                     (let products = map with_id docs
                      in if limit = 0
                         then (Inl (Exn ZeroDivisionError ''integer division or modulo by zero''), w2)
                         else (Inr [(''products'', PList products),
                                    (''count'', PInt (int (length products))),
                                    (''total_count'', PInt total_products),
                                    (''total_pages'', PInt ((total_products + limit - 1) div limit)),
                                    (''current_page'', PInt page),
                                    (''limit'', PInt limit)], w2))))"

text \<open>\<open>FirebaseClient.get_product_by_id\<close>: the document with its id, or \<open>None\<close>; an exception gives \<open>None\<close> too.\<close>

definition get_product_by_id :: "env \<Rightarrow> pyval \<Rightarrow> world \<Rightarrow> pyval \<times> world" where
  "get_product_by_id E product_id w =
     (case store_get E ''products'' product_id w of
        (Inl e, w1) \<Rightarrow> (PNone, w1)
      | (Inr None, w1) \<Rightarrow> (PNone, w1)
      | (Inr (Some doc), w1) \<Rightarrow> (with_id doc, w1))"

text \<open>\<open>FirebaseClient.update_product\<close>: \<open>True\<close> when the store took the update, \<open>False\<close> on any exception.\<close>

definition update_product :: "env \<Rightarrow> pyval \<Rightarrow> pydict \<Rightarrow> world \<Rightarrow> bool \<times> world" where
  "update_product E product_id update_data w =
     (let d = dict_set update_data ''updatedAt'' (PStr (timestamp E w))
      in case store_update E ''products'' product_id d w of
           (Inl e, w2) \<Rightarrow> (False, w2)
         | (Inr u, w2) \<Rightarrow> (True, w2))"

text \<open>\<open>FirebaseClient.delete_product\<close>\<close>

definition delete_product :: "env \<Rightarrow> pyval \<Rightarrow> world \<Rightarrow> bool \<times> world" where
  "delete_product E product_id w =
     (case store_delete E ''products'' product_id w of
        (Inl e, w1) \<Rightarrow> (False, w1)
      | (Inr u, w1) \<Rightarrow> (True, w1))"

text \<open>
  \<open>FirebaseClient.search_products\<close>: streams the seller's documents and keeps those whose
  name, description or SKU contains the search term, case-insensitively, and whose
  category is the requested one. \<open>.lower()\<close> exists on strings only; \<open>or\<close> stops at the
  first true operand.
\<close>

definition py_lower :: "pyval \<Rightarrow> exn + string" where
  "py_lower v =
     (case v of
        PStr s \<Rightarrow> Inr (lower s)
      | _ \<Rightarrow> Inl (Exn AttributeError ''object has no attribute 'lower' ''))"

definition field_matches :: "pyval \<Rightarrow> pydict \<Rightarrow> string \<Rightarrow> exn + bool" where
  "field_matches search_term product_data key =
     (case py_lower search_term of
        Inl e \<Rightarrow> Inl e
      | Inr t \<Rightarrow>
          (case py_lower (dict_get product_data key (PStr [])) of
             Inl e \<Rightarrow> Inl e
           | Inr f \<Rightarrow> Inr (contains t f)))"

definition matches_search :: "pyval \<Rightarrow> pydict \<Rightarrow> exn + bool" where
  "matches_search search_term product_data =
     (case field_matches search_term product_data ''name'' of
        Inl e \<Rightarrow> Inl e
      | Inr True \<Rightarrow> Inr True
      | Inr False \<Rightarrow>
          (case field_matches search_term product_data ''description'' of
             Inl e \<Rightarrow> Inl e
           | Inr True \<Rightarrow> Inr True
           | Inr False \<Rightarrow> field_matches search_term product_data ''sku''))"

definition matches_category :: "pyval \<Rightarrow> pydict \<Rightarrow> bool" where
  "matches_category category product_data =
     (\<not> truthy category \<or> py_eq (dict_get product_data ''category'' (PStr [])) category)"

fun search_loop :: "pyval \<Rightarrow> pyval \<Rightarrow> (string \<times> pydict) list \<Rightarrow> pyval list \<Rightarrow> exn + pyval list" where
  "search_loop search_term category [] acc = Inr acc"
| "search_loop search_term category ((i, d) # docs) acc =
     (let product_data = dict_set d ''id'' (PStr i)
      in case matches_search search_term product_data of
           Inl e \<Rightarrow> Inl e
         | Inr m \<Rightarrow>
             if m \<and> matches_category category product_data
             then search_loop search_term category docs (acc @ [PDict product_data])
             else search_loop search_term category docs acc)"

definition search_products :: "env \<Rightarrow> pyval \<Rightarrow> pyval \<Rightarrow> pyval \<Rightarrow> world \<Rightarrow> (exn + pyval list) \<times> world" where
  "search_products E user_id search_term category w =
     (case store_stream E ''products'' ''userId'' user_id None w of
        (Inl e, w1) \<Rightarrow> (Inl e, w1)
      | (Inr docs, w1) \<Rightarrow> (search_loop search_term category docs [], w1))"

text \<open>\<open>FirebaseClient.update_product_quantity\<close>\<close>

definition update_product_quantity :: "env \<Rightarrow> pyval \<Rightarrow> pyval \<Rightarrow> world \<Rightarrow> bool \<times> world" where
  "update_product_quantity E product_id new_quantity w =
     (case store_update E ''products'' product_id
             [(''quantity'', new_quantity), (''updatedAt'', PStr (timestamp E w))] w of
        (Inl e, w2) \<Rightarrow> (False, w2)
      | (Inr u, w2) \<Rightarrow> (True, w2))"

text \<open>\<open>FirebaseClient.create_order\<close>: the order document starts as pending, with the store's timestamps.\<close>

definition create_order :: "env \<Rightarrow> pyval \<Rightarrow> pydict \<Rightarrow> world \<Rightarrow> (exn + string) \<times> world" where
  "create_order E user_id order_data w =
     (let order_doc = [(''user_id'', user_id),
                       (''chat_message'', dict_get order_data ''chat_message'' (PStr [])),
                       (''order_details'', dict_get order_data ''order_details'' (PDict [])),
                       (''status'', PStr ''pending''),
                       (''created_at'', PDatetime (utcnow w)),
                       (''updated_at'', PDatetime (utcnow w))]
      in store_add E ''orders'' order_doc w)"

text \<open>\<open>FirebaseClient.get_user_orders\<close>: the user's orders, latest first.\<close>

definition get_user_orders :: "env \<Rightarrow> pyval \<Rightarrow> world \<Rightarrow> (exn + pyval list) \<times> world" where
  "get_user_orders E user_id w =
     (case store_stream E ''orders'' ''user_id'' user_id None w of
        (Inl e, w1) \<Rightarrow> (Inl e, w1)
      | (Inr docs, w1) \<Rightarrow> (Inr (map with_id (order_by_desc ''created_at'' docs)), w1))"

text \<open>\<open>FirebaseClient.update_order_status\<close>\<close>

definition update_order_status :: "env \<Rightarrow> pyval \<Rightarrow> pyval \<Rightarrow> world \<Rightarrow> bool \<times> world" where
  "update_order_status E order_id status w =
     (case store_update E ''orders'' order_id
             [(''status'', status), (''updated_at'', PDatetime (utcnow w))] w of
        (Inl e, w2) \<Rightarrow> (False, w2)
      | (Inr u, w2) \<Rightarrow> (True, w2))"

text \<open>\<open>FirebaseClient.get_order_by_id\<close>\<close>

definition get_order_by_id :: "env \<Rightarrow> pyval \<Rightarrow> world \<Rightarrow> pyval \<times> world" where
  "get_order_by_id E order_id w =
     (case store_get E ''orders'' order_id w of
        (Inl e, w1) \<Rightarrow> (PNone, w1)
      | (Inr None, w1) \<Rightarrow> (PNone, w1)
      | (Inr (Some doc), w1) \<Rightarrow> (with_id doc, w1))"

section \<open>The natural-language agent (gemini_agent.py)\<close>

subsection \<open>The operations behind the registry\<close>

text \<open>
  Each operation wraps its whole body in \<open>try ... except Exception as e\<close> and answers
  \<open>{"success": False, "error": str(e)}\<close> on an exception.
\<close>

definition error_result :: "string \<Rightarrow> pyval" where
  "error_result msg = PDict [(''success'', PBool False), (''error'', PStr msg)]"

text \<open>
  Reading a result: \<open>result_field r k\<close> is the value under key \<open>k\<close> when \<open>r\<close> is a dictionary
  that has the key; \<open>has_status r\<close> says that \<open>r\<close> is a dictionary with a boolean
  \<open>success\<close>.
\<close>

definition result_field :: "pyval \<Rightarrow> string \<Rightarrow> pyval option" where
  "result_field r k = (case r of PDict d \<Rightarrow> map_of d k | _ \<Rightarrow> None)"

definition has_status :: "pyval \<Rightarrow> bool" where
  "has_status r = (case result_field r ''success'' of Some (PBool ok) \<Rightarrow> True | _ \<Rightarrow> False)"

definition fstr :: "env \<Rightarrow> pyval \<Rightarrow> string" where
  "fstr E v = py_str (repr_other E) v"

definition quote :: string where
  "quote = [CHR 0x27]"

text \<open>
  \<open>_get_seller_products(user_id, page=1, limit=10)\<close>. The adapter computes
  \<open>(page - 1) * limit\<close> and hands both numbers to the store: values that are not integers
  make the arithmetic or the query raise, which the operation reports as any exception.
\<close>

definition agent_get_seller_products :: "env \<Rightarrow> pyval \<Rightarrow> pyval \<Rightarrow> pyval \<Rightarrow> world \<Rightarrow> pyval \<times> world" where
  "agent_get_seller_products E user_id page limit w =
     (case (page, limit) of
        (PInt p, PInt l) \<Rightarrow>
          (case get_seller_products E user_id p l w of
             (Inl e, w1) \<Rightarrow> (error_result (str_exn e), w1)
           | (Inr result, w1) \<Rightarrow>
               (PDict [(''success'', PBool True),
                       (''data'', PDict result),
                       (''message'', PStr (''Retrieved '' @ fstr E (dict_get result ''count'' PNone)
                                            @ '' products for seller''))], w1))
      | _ \<Rightarrow> (error_result ''unsupported operand type(s)'', w))"

text \<open>\<open>_get_product_details(product_id)\<close>\<close>

definition agent_get_product_details :: "env \<Rightarrow> pyval \<Rightarrow> world \<Rightarrow> pyval \<times> world" where
  "agent_get_product_details E product_id w =
     (let (product, w1) = get_product_by_id E product_id w
      in if truthy product
         then (PDict [(''success'', PBool True),
                      (''data'', product),
                      (''message'', PStr (''Retrieved details for product '' @ fstr E product_id))], w1)
         else (error_result ''Product not found'', w1))"

text \<open>
  \<open>_create_product(**kwargs)\<close>: checks that the nine required fields are present, in
  this order, defaults \<open>userType\<close>, and creates the document. Nothing else is checked.
\<close>

definition required_fields :: "string list" where
  "required_fields =
     [''category'', ''companyName'', ''description'', ''imageUrl'', ''name'', ''price'',
      ''quantity'', ''sku'', ''userId'']"

definition agent_create_product :: "env \<Rightarrow> pydict \<Rightarrow> world \<Rightarrow> pyval \<times> world" where
  "agent_create_product E kwargs w =
     (case find (\<lambda>field. map_of kwargs field = None) required_fields of
        Some field \<Rightarrow> (error_result (''Missing required field: '' @ field), w)
      | None \<Rightarrow>
          (let kwargs1 = (if map_of kwargs ''userType'' = None
                          then dict_set kwargs ''userType'' (PStr ''seller'') else kwargs)
           in case create_product E kwargs1 w of
                (Inl e, w1) \<Rightarrow> (error_result (str_exn e), w1)
              | (Inr product_id, w1) \<Rightarrow>
                  (PDict [(''success'', PBool True),
                          (''data'', PDict [(''product_id'', PStr product_id)]),
                          (''message'', PStr (''Product '' @ quote @ fstr E (dict_get kwargs1 ''name'' PNone)
                                               @ quote @ '' created successfully''))], w1)))"

text \<open>\<open>_update_product(product_id, **kwargs)\<close>: drops the \<open>None\<close> values; with nothing left it stops.\<close>

definition agent_update_product :: "env \<Rightarrow> pyval \<Rightarrow> pydict \<Rightarrow> world \<Rightarrow> pyval \<times> world" where
  "agent_update_product E product_id kwargs w =
     (let update_data = filter (\<lambda>(k, v). v \<noteq> PNone) kwargs
      in if update_data = []
         then (error_result ''No valid update data provided'', w)
         else (let (success, w1) = update_product E product_id update_data w
               in if success
                  then (PDict [(''success'', PBool True),
                               (''data'', PDict [(''product_id'', product_id)]),
                               (''message'', PStr (''Product '' @ fstr E product_id @ '' updated successfully''))], w1)
                  else (error_result ''Failed to update product'', w1)))"

text \<open>\<open>_delete_product(product_id)\<close>\<close>

definition agent_delete_product :: "env \<Rightarrow> pyval \<Rightarrow> world \<Rightarrow> pyval \<times> world" where
  "agent_delete_product E product_id w =
     (let (success, w1) = delete_product E product_id w
      in if success
         then (PDict [(''success'', PBool True),
                      (''data'', PDict [(''product_id'', product_id)]),
                      (''message'', PStr (''Product '' @ fstr E product_id @ '' deleted successfully''))], w1)
         else (error_result ''Failed to delete product'', w1))"

text \<open>\<open>_search_products(user_id, search_term, category=None)\<close>\<close>

definition agent_search_products :: "env \<Rightarrow> pyval \<Rightarrow> pyval \<Rightarrow> pyval \<Rightarrow> world \<Rightarrow> pyval \<times> world" where
  "agent_search_products E user_id search_term category w =
     (case search_products E user_id search_term category w of
        (Inl e, w1) \<Rightarrow> (error_result (str_exn e), w1)
      | (Inr found, w1) \<Rightarrow>
          (PDict [(''success'', PBool True),
                  (''data'', PDict [(''products'', PList found), (''count'', PInt (int (length found)))]),
                  (''message'', PStr (''Found '' @ str_int (int (length found)) @ '' products matching ''
                                       @ quote @ fstr E search_term @ quote))], w1))"

text \<open>\<open>_update_product_quantity(product_id, quantity)\<close>\<close>

definition agent_update_product_quantity :: "env \<Rightarrow> pyval \<Rightarrow> pyval \<Rightarrow> world \<Rightarrow> pyval \<times> world" where
  "agent_update_product_quantity E product_id quantity w =
     (let (success, w1) = update_product_quantity E product_id quantity w
      in if success
         then (PDict [(''success'', PBool True),
                      (''data'', PDict [(''product_id'', product_id), (''quantity'', quantity)]),
                      (''message'', PStr (''Product quantity updated to '' @ fstr E quantity))], w1)
         else (error_result ''Failed to update quantity'', w1))"

text \<open>\<open>_get_user_orders(user_id)\<close>\<close>

definition agent_get_user_orders :: "env \<Rightarrow> pyval \<Rightarrow> world \<Rightarrow> pyval \<times> world" where
  "agent_get_user_orders E user_id w =
     (case get_user_orders E user_id w of
        (Inl e, w1) \<Rightarrow> (error_result (str_exn e), w1)
      | (Inr found, w1) \<Rightarrow>
          (PDict [(''success'', PBool True),
                  (''data'', PDict [(''orders'', PList found), (''count'', PInt (int (length found)))]),
                  (''message'', PStr (''Retrieved '' @ str_int (int (length found)) @ '' orders for user''))], w1))"

text \<open>\<open>_get_order_details(order_id)\<close>\<close>

definition agent_get_order_details :: "env \<Rightarrow> pyval \<Rightarrow> world \<Rightarrow> pyval \<times> world" where
  "agent_get_order_details E order_id w =
     (let (order, w1) = get_order_by_id E order_id w
      in if truthy order
         then (PDict [(''success'', PBool True),
                      (''data'', order),
                      (''message'', PStr (''Retrieved details for order '' @ fstr E order_id))], w1)
         else (error_result ''Order not found'', w1))"

text \<open>\<open>_place_order(user_id, chat_message, order_details=None, use_ai_processing=True)\<close>\<close>

definition agent_place_order :: "env \<Rightarrow> pyval \<Rightarrow> pyval \<Rightarrow> pyval \<Rightarrow> pyval \<Rightarrow> world \<Rightarrow> pyval \<times> world" where
  "agent_place_order E user_id chat_message order_details use_ai_processing w =
     (case create_order E user_id
             [(''chat_message'', chat_message),
              (''order_details'', if truthy order_details then order_details else PDict [])] w of
        (Inl e, w1) \<Rightarrow> (error_result (str_exn e), w1)
      | (Inr order_id, w1) \<Rightarrow>
          (PDict [(''success'', PBool True),
                  (''data'', PDict [(''order_id'', PStr order_id)]),
                  (''message'', PStr (''Order placed successfully with ID: '' @ order_id))], w1))"

text \<open>\<open>_update_order_status(order_id, status)\<close>\<close>

definition agent_update_order_status :: "env \<Rightarrow> pyval \<Rightarrow> pyval \<Rightarrow> world \<Rightarrow> pyval \<times> world" where
  "agent_update_order_status E order_id status w =
     (let (success, w1) = update_order_status E order_id status w
      in if success
         then (PDict [(''success'', PBool True),
                      (''data'', PDict [(''order_id'', order_id), (''status'', status)]),
                      (''message'', PStr (''Order status updated to '' @ fstr E status))], w1)
         else (error_result ''Failed to update order status'', w1))"

subsection \<open>Calling a method with keyword arguments\<close>

text \<open>
  \<open>f(**parameters)\<close> on a bound method. A signature lists the parameters without a
  default, those with a default, and whether the method takes \<open>**kwargs\<close>. The call
  raises \<open>TypeError\<close> when \<open>parameters\<close> is no mapping, at the first keyword that is
  \<open>self\<close> or that the method does not accept, or when a parameter without default is
  missing; otherwise the body runs with the arguments bound. (The wording of these
  messages is the interpreter's.)
\<close>

record signature =
  required :: "string list"
  defaults :: "(string \<times> pyval) list"
  var_keyword :: bool

definition param_names :: "signature \<Rightarrow> string list" where
  "param_names sg = required sg @ map fst (defaults sg)"

fun check_keywords :: "signature \<Rightarrow> string list \<Rightarrow> exn option" where
  "check_keywords sg [] = None"
| "check_keywords sg (k # ks) =
     (if k = ''self'' then Some (Exn TypeError ''got multiple values for argument self'')
      else if k \<notin> set (param_names sg) \<and> \<not> var_keyword sg
           then Some (Exn TypeError (''got an unexpected keyword argument '' @ k))
      else check_keywords sg ks)"

record bound =
  b_named :: pydict
  b_kwargs :: pydict

definition bind :: "signature \<Rightarrow> pyval \<Rightarrow> exn + bound" where
  "bind sg parameters =
     (case parameters of
        PDict kv \<Rightarrow>
          (case check_keywords sg (map fst kv) of
             Some e \<Rightarrow> Inl e
           | None \<Rightarrow>
               (case filter (\<lambda>p. map_of kv p = None) (required sg) of
                  [] \<Rightarrow>
                    Inr \<lparr>b_named = map (\<lambda>p. (p, dict_get kv p PNone)) (required sg)
                                  @ map (\<lambda>(p, d). (p, dict_get kv p d)) (defaults sg),
                         b_kwargs = filter (\<lambda>(k, v). k \<notin> set (param_names sg)) kv\<rparr>
                | m # ms \<Rightarrow>
                    Inl (Exn TypeError (''missing required positional argument: '' @ m))))
      | _ \<Rightarrow> Inl (Exn TypeError ''argument after ** must be a mapping''))"

definition arg :: "bound \<Rightarrow> string \<Rightarrow> pyval" where
  "arg b p = dict_get (b_named b) p PNone"

record pyfunc =
  sig :: signature
  run :: "env \<Rightarrow> bound \<Rightarrow> world \<Rightarrow> pyval \<times> world"

definition invoke :: "env \<Rightarrow> pyfunc \<Rightarrow> pyval \<Rightarrow> world \<Rightarrow> (exn + pyval) \<times> world" where
  "invoke E f parameters w =
     (case bind (sig f) parameters of
        Inl e \<Rightarrow> (Inl e, w)
      | Inr b \<Rightarrow> (let (r, w1) = run f E b w in (Inr r, w1)))"

subsection \<open>The registry\<close>

text \<open>\<open>self.available_functions\<close>: operation name to bound method, with each method's \<open>def\<close> line.\<close>

definition available_functions :: "(string \<times> pyfunc) list" where
  "available_functions =
     [(''get_seller_products'',
       \<lparr>sig = \<lparr>required = [''user_id''], defaults = [(''page'', PInt 1), (''limit'', PInt 10)],
               var_keyword = False\<rparr>,
        run = (\<lambda>E b. agent_get_seller_products E (arg b ''user_id'') (arg b ''page'') (arg b ''limit''))\<rparr>),
      (''get_product_details'',
       \<lparr>sig = \<lparr>required = [''product_id''], defaults = [], var_keyword = False\<rparr>,
        run = (\<lambda>E b. agent_get_product_details E (arg b ''product_id''))\<rparr>),
      (''create_product'',
       \<lparr>sig = \<lparr>required = [], defaults = [], var_keyword = True\<rparr>,
        run = (\<lambda>E b. agent_create_product E (b_kwargs b))\<rparr>),
      (''update_product'',
       \<lparr>sig = \<lparr>required = [''product_id''], defaults = [], var_keyword = True\<rparr>,
        run = (\<lambda>E b. agent_update_product E (arg b ''product_id'') (b_kwargs b))\<rparr>),
      (''delete_product'',
       \<lparr>sig = \<lparr>required = [''product_id''], defaults = [], var_keyword = False\<rparr>,
        run = (\<lambda>E b. agent_delete_product E (arg b ''product_id''))\<rparr>),
      (''search_products'',
       \<lparr>sig = \<lparr>required = [''user_id'', ''search_term''], defaults = [(''category'', PNone)],
               var_keyword = False\<rparr>,
        run = (\<lambda>E b. agent_search_products E (arg b ''user_id'') (arg b ''search_term'') (arg b ''category''))\<rparr>),
      (''update_product_quantity'',
       \<lparr>sig = \<lparr>required = [''product_id'', ''quantity''], defaults = [], var_keyword = False\<rparr>,
        run = (\<lambda>E b. agent_update_product_quantity E (arg b ''product_id'') (arg b ''quantity''))\<rparr>),
      (''get_user_orders'',
       \<lparr>sig = \<lparr>required = [''user_id''], defaults = [], var_keyword = False\<rparr>,
        run = (\<lambda>E b. agent_get_user_orders E (arg b ''user_id''))\<rparr>),
      (''get_order_details'',
       \<lparr>sig = \<lparr>required = [''order_id''], defaults = [], var_keyword = False\<rparr>,
        run = (\<lambda>E b. agent_get_order_details E (arg b ''order_id''))\<rparr>),
      (''place_order'',
       \<lparr>sig = \<lparr>required = [''user_id'', ''chat_message''],
               defaults = [(''order_details'', PNone), (''use_ai_processing'', PBool True)],
               var_keyword = False\<rparr>,
        run = (\<lambda>E b. agent_place_order E (arg b ''user_id'') (arg b ''chat_message'')
                        (arg b ''order_details'') (arg b ''use_ai_processing''))\<rparr>),
      (''update_order_status'',
       \<lparr>sig = \<lparr>required = [''order_id'', ''status''], defaults = [], var_keyword = False\<rparr>,
        run = (\<lambda>E b. agent_update_order_status E (arg b ''order_id'') (arg b ''status''))\<rparr>)]"

text \<open>\<open>self.function_descriptions\<close>: what the prompt tells the model about each operation.\<close>

record descriptor =
  d_name :: string
  d_description :: string
  d_parameters :: "(string \<times> string) list"

definition function_descriptions :: "descriptor list" where
  "function_descriptions =
    [\<lparr>d_name = ''get_seller_products'',
      d_description = ''Get all products for a specific seller with pagination'',
      d_parameters =
          [(''user_id'', ''string - Seller's Firebase user ID''),
           (''page'', ''integer - Page number (default: 1)''),
           (''limit'', ''integer - Number of products per page (default: 10)'')]\<rparr>,
     \<lparr>d_name = ''get_product_details'',
      d_description = ''Get detailed information about a specific product'',
      d_parameters =
          [(''product_id'', ''string - Product ID to retrieve'')]\<rparr>,
     \<lparr>d_name = ''create_product'',
      d_description = ''Create a new product for a seller'',
      d_parameters =
          [(''category'', ''string - Product category (e.g., Electronics, Clothing)''),
           (''companyName'', ''string - Company name''),
           (''description'', ''string - Product description''),
           (''imageUrl'', ''string - Product image URL''),
           (''name'', ''string - Product name''),
           (''price'', ''number - Product price''),
           (''quantity'', ''integer - Available quantity''),
           (''sku'', ''string - Product SKU''),
           (''userId'', ''string - Seller's Firebase user ID''),
           (''userType'', ''string - User type (default: seller)'')]\<rparr>,
     \<lparr>d_name = ''update_product'',
      d_description = ''Update an existing product's information'',
      d_parameters =
          [(''product_id'', ''string - Product ID to update''),
           (''name'', ''string - New product name (optional)''),
           (''price'', ''number - New price (optional)''),
           (''quantity'', ''integer - New quantity (optional)''),
           (''description'', ''string - New description (optional)''),
           (''category'', ''string - New category (optional)''),
           (''imageUrl'', ''string - New image URL (optional)'')]\<rparr>,
     \<lparr>d_name = ''delete_product'',
      d_description = ''Delete a product from inventory'',
      d_parameters =
          [(''product_id'', ''string - Product ID to delete'')]\<rparr>,
     \<lparr>d_name = ''search_products'',
      d_description = ''Search products for a seller by name, description, or SKU'',
      d_parameters =
          [(''user_id'', ''string - Seller's Firebase user ID''),
           (''search_term'', ''string - Search term''),
           (''category'', ''string - Category filter (optional)'')]\<rparr>,
     \<lparr>d_name = ''update_product_quantity'',
      d_description = ''Update the quantity of a specific product'',
      d_parameters =
          [(''product_id'', ''string - Product ID''),
           (''quantity'', ''integer - New quantity'')]\<rparr>,
     \<lparr>d_name = ''get_user_orders'',
      d_description = ''Get all orders for a specific user'',
      d_parameters =
          [(''user_id'', ''string - User's Firebase user ID'')]\<rparr>,
     \<lparr>d_name = ''get_order_details'',
      d_description = ''Get detailed information about a specific order'',
      d_parameters =
          [(''order_id'', ''string - Order ID to retrieve'')]\<rparr>,
     \<lparr>d_name = ''place_order'',
      d_description = ''Place a new order via chat message'',
      d_parameters =
          [(''user_id'', ''string - Buyer's Firebase user ID''),
           (''chat_message'', ''string - Order message''),
           (''order_details'', ''object - Additional order details (optional)''),
           (''use_ai_processing'', ''boolean - Whether to use AI processing (default: true)'')]\<rparr>,
     \<lparr>d_name = ''update_order_status'',
      d_description = ''Update the status of an order'',
      d_parameters =
          [(''order_id'', ''string - Order ID''),
           (''status'', ''string - New status (pending, processing, completed, cancelled)'')]\<rparr>]"

text \<open>
  A descriptor says in words which parameters may be left out: their text carries
  \<open>(optional)\<close> or \<open>(default: ...)\<close>. The others are declared required.
\<close>

definition declared_required :: "descriptor \<Rightarrow> string list" where
  "declared_required d =
     map fst (filter (\<lambda>(p, t). \<not> contains ''(optional)'' t \<and> \<not> contains ''(default'' t) (d_parameters d))"

text \<open>
  A call fails when it raises or answers \<open>success: False\<close>, and leaves the world as it
  was. A method requires an argument when every call that lacks it fails.
\<close>

definition call_fails :: "(exn + pyval) \<times> world \<Rightarrow> world \<Rightarrow> bool" where
  "call_fails outcome w =
     (snd outcome = w
      \<and> (case fst outcome of
            Inl e \<Rightarrow> True
          | Inr r \<Rightarrow> (case r of PDict d \<Rightarrow> map_of d ''success'' = Some (PBool False) | _ \<Rightarrow> False)))"

definition requires_argument :: "pyfunc \<Rightarrow> string \<Rightarrow> bool" where
  "requires_argument f p =
     (\<forall>E kv w. map_of kv p = None \<longrightarrow> call_fails (invoke E f (PDict kv) w) w)"

subsection \<open>The prompt\<close>

text \<open>
  \<open>json.dumps(self.function_descriptions, indent=2)\<close>: strings are quoted with the
  escapes of JSON, objects and lists are laid out one entry per line.
\<close>

definition hex_digit :: "nat \<Rightarrow> char" where
  "hex_digit n = (if n < 10 then char_of (48 + n) else char_of (87 + n))"

definition escape_char :: "char \<Rightarrow> string" where
  \<open>escape_char c =
     (let n = (of_char c :: nat)
      in if c = CHR 0x22 then [CHR 0x5C, CHR 0x22]
         else if c = CHR 0x5C then [CHR 0x5C, CHR 0x5C]
         else if n = 10 then [CHR 0x5C, CHR ''n'']
         else if n = 13 then [CHR 0x5C, CHR ''r'']
         else if n = 9 then [CHR 0x5C, CHR ''t'']
         else if n = 8 then [CHR 0x5C, CHR ''b'']
         else if n = 12 then [CHR 0x5C, CHR ''f'']
         else if n < 32 \<or> 127 < n
              then [CHR 0x5C, CHR ''u'', CHR ''0'', CHR ''0'', hex_digit (n div 16), hex_digit (n mod 16)]
         else [c])\<close>

definition dumps_str :: "string \<Rightarrow> string" where
  "dumps_str s = [CHR 0x22] @ concat (map escape_char s) @ [CHR 0x22]"

fun join :: "string \<Rightarrow> string list \<Rightarrow> string" where
  "join sep [] = []"
| "join sep [x] = x"
| "join sep (x # y # ys) = x @ sep @ join sep (y # ys)"

definition dumps_parameters :: "(string \<times> string) list \<Rightarrow> string" where
  "dumps_parameters ps =
     (if ps = [] then ''{}''
      else ''{\<newline>''
           @ join '',\<newline>'' (map (\<lambda>(k, v). ''      '' @ dumps_str k @ '': '' @ dumps_str v) ps)
           @ ''\<newline>    }'')"

definition dumps_descriptor :: "descriptor \<Rightarrow> string" where
  "dumps_descriptor d =
     ''  {\<newline>''
     @ ''    '' @ dumps_str ''name'' @ '': '' @ dumps_str (d_name d) @ '',\<newline>''
     @ ''    '' @ dumps_str ''description'' @ '': '' @ dumps_str (d_description d) @ '',\<newline>''
     @ ''    '' @ dumps_str ''parameters'' @ '': '' @ dumps_parameters (d_parameters d) @ ''\<newline>''
     @ ''  }''"

definition dumps_descriptions :: "descriptor list \<Rightarrow> string" where
  "dumps_descriptions ds =
     (if ds = [] then ''[]''
      else ''[\<newline>'' @ join '',\<newline>'' (map dumps_descriptor ds) @ ''\<newline>]'')"

text \<open>The f-string of \<open>process_natural_language_query\<close>.\<close>

definition user_prompt :: "string \<Rightarrow> string" where
  \<open>user_prompt query =
     concat
      [''\<newline>'',
       ''            User Query: "'',
       query,
       ''"\<newline>'',
       ''            \<newline>'',
       ''            Based on the available functions and the user's query, determine which function to call and with what parameters.\<newline>'',
       ''            \<newline>'',
       ''            Available Functions:\<newline>'',
       ''            '',
       dumps_descriptions function_descriptions,
       ''\<newline>'',
       ''            \<newline>'',
       ''            Please respond with a JSON object containing:\<newline>'',
       ''            {\<newline>'',
       ''                "function_name": "name of the function to call",\<newline>'',
       ''                "parameters": {\<newline>'',
       ''                    "param1": "value1",\<newline>'',
       ''                    "param2": "value2"\<newline>'',
       ''                },\<newline>'',
       ''                "explanation": "Brief explanation of what this function will do"\<newline>'',
       ''            }\<newline>'',
       ''            \<newline>'',
       ''            If the query doesn't match any function, respond with:\<newline>'',
       ''            {\<newline>'',
       ''                "function_name": null,\<newline>'',
       ''                "parameters": {},\<newline>'',
       ''                "explanation": "No matching function found for this query"\<newline>'',
       ''            }\<newline>'',
       ''            '']\<close>

text \<open>
  \<open>_create_system_prompt(context)\<close>: the persona, then one line per entry of the context.
  Its result is computed first and not sent to the model.
\<close>

definition system_prompt_head :: string where
  \<open>system_prompt_head =
     concat
      [''\<newline>'',
       ''        You are an AI assistant for WKC (wkc.vercel.app) that helps users interact with their product inventory and orders through natural language.\<newline>'',
       ''        \<newline>'',
       ''        Your role is to:\<newline>'',
       ''        1. Understand user queries in natural language\<newline>'',
       ''        2. Identify the appropriate function to call\<newline>'',
       ''        3. Extract relevant parameters from the query\<newline>'',
       ''        4. Provide clear explanations of what will be done\<newline>'',
       ''        \<newline>'',
       ''        Context Information:\<newline>'',
       ''        '']\<close>

definition create_system_prompt :: "env \<Rightarrow> pyval \<Rightarrow> exn + string" where
  "create_system_prompt E context =
     (if truthy context
      then (case context of
              PDict kv \<Rightarrow>
                Inr (system_prompt_head
                     @ concat (map (\<lambda>(key, v). ''- '' @ key @ '': '' @ fstr E v @ ''\<newline>'') kv))
            | _ \<Rightarrow> Inl (Exn AttributeError ''object has no attribute items''))
      else Inr system_prompt_head)"

subsection \<open>The dispatcher\<close>

text \<open>
  \<open>re.search(r'\{.*\}', text, re.DOTALL)\<close>: the leftmost match starts at the first
  opening brace that has a closing brace after it, and the greedy \<open>.*\<close> runs to the last
  closing brace of the text.
\<close>

definition json_match :: "string \<Rightarrow> string option" where
  "json_match text =
     (let t = dropWhile (\<lambda>c. c \<noteq> CHR ''{'') text
      in if t = [] then None
         else (let r = rev (dropWhile (\<lambda>c. c \<noteq> CHR ''}'') (rev (tl t)))
               in if r = [] then None else Some (CHR ''{'' # r)))"

text \<open>
  The parsing step: \<open>json.loads\<close> on the whole reply; on \<open>JSONDecodeError\<close> the brace
  region, parsed outside the inner \<open>try\<close>; without a region the method returns at once.
  The result is an exception, the early return, or the parsed value.
\<close>

definition parse_response :: "env \<Rightarrow> string \<Rightarrow> exn + (pyval + pyval)" where
  "parse_response E text =
     (case json_loads E text of
        Inr result \<Rightarrow> Inr (Inr result)
      | Inl e \<Rightarrow>
          if kind e = JSONDecodeError
          then (case json_match text of
                  Some region \<Rightarrow>
                    (case json_loads E region of
                       Inr result \<Rightarrow> Inr (Inr result)
                     | Inl e2 \<Rightarrow> Inl e2)
                | None \<Rightarrow>
                    Inr (Inl (PDict [(''success'', PBool False),
                                     (''error'', PStr ''Failed to parse AI response''),
                                     (''raw_response'', PStr text)])))
          else Inl e)"

text \<open>
  \<open>result.get("function_name") and result["function_name"] in self.available_functions\<close>:
  \<open>and\<close> stops at a falsy name; the membership test raises on a list or a dictionary.
\<close>

definition function_selected :: "pyval \<Rightarrow> exn + pyfunc option" where
  "function_selected fn =
     (if truthy fn
      then (if hashable fn
            then Inr (case fn of PStr s \<Rightarrow> map_of available_functions s | _ \<Rightarrow> None)
            else Inl (Exn TypeError (''unhashable type: '' @ quote
                                     @ (case fn of PList xs \<Rightarrow> ''list'' | _ \<Rightarrow> ''dict'') @ quote)))
      else Inr None)"

definition execute :: "env \<Rightarrow> pyval \<Rightarrow> world \<Rightarrow> (exn + pyval) \<times> world" where
  "execute E result w =
     (case result of
        PDict r \<Rightarrow>
          (case function_selected (dict_get r ''function_name'' PNone) of
             Inl e \<Rightarrow> (Inl e, w)
           | Inr (Some f) \<Rightarrow>
               (let function_name = dict_get r ''function_name'' PNone;
                    parameters = dict_get r ''parameters'' (PDict [])
                in case invoke E f parameters w of
                     (Inl e, w1) \<Rightarrow> (Inl e, w1)
                   | (Inr function_result, w1) \<Rightarrow>
                       (Inr (PDict [(''success'', PBool True),
                                    (''function_called'', function_name),
                                    (''parameters'', parameters),
                                    (''explanation'', dict_get r ''explanation'' (PStr [])),
                                    (''result'', function_result)]), w1))
           | Inr None \<Rightarrow>
               (Inr (PDict [(''success'', PBool False),
                            (''function_called'', PNone),
                            (''explanation'', dict_get r ''explanation'' (PStr ''No matching function found'')),
                            (''available_functions'', PList (map (\<lambda>f. PStr (d_name f)) function_descriptions))]),
                w))
      | _ \<Rightarrow> (Inl (Exn AttributeError ''object has no attribute get''), w))"

text \<open>The body of the outer \<open>try\<close> of \<open>process_natural_language_query\<close>.\<close>

definition process_natural_language_query_try ::
  "env \<Rightarrow> string \<Rightarrow> pyval \<Rightarrow> world \<Rightarrow> (exn + pyval) \<times> world" where
  "process_natural_language_query_try E query context w =
     (case create_system_prompt E context of
        Inl e \<Rightarrow> (Inl e, w)
      | Inr system_prompt \<Rightarrow>
          (case call_model E (user_prompt query) w of
             (Inl e, w1) \<Rightarrow> (Inl e, w1)
           | (Inr text, w1) \<Rightarrow>
               (case parse_response E text of
                  Inl e \<Rightarrow> (Inl e, w1)
                | Inr (Inl early) \<Rightarrow> (Inr early, w1)
                | Inr (Inr result) \<Rightarrow> execute E result w1)))"

text \<open>The handler \<open>except Exception as e\<close> of the method: an exception becomes a failed result.\<close>

definition on_exception :: "(exn + pyval) \<times> world \<Rightarrow> pyval \<times> world" where
  "on_exception outcome =
     (case outcome of
        (Inl e, w1) \<Rightarrow>
          (PDict [(''success'', PBool False),
                  (''error'', PStr (''Failed to process query: '' @ str_exn e))], w1)
      | (Inr r, w1) \<Rightarrow> (r, w1))"

text \<open>\<open>GeminiAgent.process_natural_language_query\<close>: the body under its handler.\<close>

definition process_natural_language_query :: "env \<Rightarrow> string \<Rightarrow> pyval \<Rightarrow> world \<Rightarrow> pyval \<times> world" where
  "process_natural_language_query E query context w =
     on_exception (process_natural_language_query_try E query context w)"

section \<open>The order intake pipeline (gemini_service.py)\<close>

text \<open>\<open>self.system_prompt\<close> and the f-string of \<open>process_order_message\<close>.\<close>

definition service_system_prompt :: string where
  \<open>service_system_prompt =
     concat
      [''\<newline>'',
       ''        You are an AI assistant for WKC (wkc.vercel.app) that helps process orders from chat messages.\<newline>'',
       ''        \<newline>'',
       ''        Your role is to:\<newline>'',
       ''        1. Extract order details from user chat messages\<newline>'',
       ''        2. Structure the order information clearly\<newline>'',
       ''        3. Provide helpful responses to users\<newline>'',
       ''        4. Handle order modifications and clarifications\<newline>'',
       ''        \<newline>'',
       ''        When processing orders, extract:\<newline>'',
       ''        - Items ordered (with quantities if specified)\<newline>'',
       ''        - Special instructions or preferences\<newline>'',
       ''        - Delivery/pickup preferences\<newline>'',
       ''        - Any additional requirements\<newline>'',
       ''        \<newline>'',
       ''        Be friendly, helpful, and accurate in your responses.\<newline>'',
       ''        '']\<close>

definition order_prompt :: "string \<Rightarrow> string \<Rightarrow> string" where
  \<open>order_prompt chat_message user_id =
     concat
      [''\<newline>'',
       ''            '',
       service_system_prompt,
       ''\<newline>'',
       ''            \<newline>'',
       ''            User ID: '',
       user_id,
       ''\<newline>'',
       ''            Chat Message: "'',
       chat_message,
       ''"\<newline>'',
       ''            \<newline>'',
       ''            Please analyze this order message and extract the following information:\<newline>'',
       ''            1. Items ordered (list each item with quantity)\<newline>'',
       ''            2. Special instructions or preferences\<newline>'',
       ''            3. Delivery/pickup preference\<newline>'',
       ''            4. Any additional requirements\<newline>'',
       ''            \<newline>'',
       ''            Format your response as a JSON object with these fields:\<newline>'',
       ''            - items: list of items with quantities\<newline>'',
       ''            - special_instructions: string\<newline>'',
       ''            - delivery_preference: string\<newline>'',
       ''            - additional_requirements: string\<newline>'',
       ''            - ai_analysis: brief summary of the order\<newline>'',
       ''            '']\<close>

text \<open>
  \<open>GeminiService._parse_ai_response\<close>: looks for the brace region at once (there is no
  direct parse). A region that does not parse, or that is no object, ends in the handler,
  which builds the placeholder order tagged with the original message; a reply without
  region gives the placeholder order tagged with the first 200 characters of the reply.
\<close>

definition placeholder_items :: pyval where
  "placeholder_items = PList [PDict [(''name'', PStr ''order from chat''), (''quantity'', PInt 1)]]"

definition parse_ai_response :: "env \<Rightarrow> string \<Rightarrow> string \<Rightarrow> pydict" where
  "parse_ai_response E ai_response original_message =
     (let fallback =
            [(''items'', placeholder_items),
             (''special_instructions'', PStr []),
             (''delivery_preference'', PStr ''not specified''),
             (''additional_requirements'', PStr []),
             (''ai_analysis'', PStr (''Original message: '' @ original_message))]
      in case json_match ai_response of
           Some region \<Rightarrow>
             (case json_loads E region of
                Inl e \<Rightarrow> fallback
              | Inr (PDict parsed_data) \<Rightarrow>
                  [(''items'', dict_get parsed_data ''items'' (PList [])),
                   (''special_instructions'', dict_get parsed_data ''special_instructions'' (PStr [])),
                   (''delivery_preference'', dict_get parsed_data ''delivery_preference'' (PStr ''not specified'')),
                   (''additional_requirements'', dict_get parsed_data ''additional_requirements'' (PStr [])),
                   (''ai_analysis'', dict_get parsed_data ''ai_analysis'' (PStr (take 200 ai_response)))]
              | Inr other \<Rightarrow> fallback)
         | None \<Rightarrow>
             [(''items'', placeholder_items),
              (''special_instructions'', PStr []),
              (''delivery_preference'', PStr ''not specified''),
              (''additional_requirements'', PStr []),
              (''ai_analysis'', PStr (take 200 ai_response))])"

text \<open>
  \<open>GeminiService.process_order_message\<close>: one call to the model. When the call raises, the
  handler answers with an empty item list.
\<close>

definition process_order_message :: "env \<Rightarrow> string \<Rightarrow> string \<Rightarrow> world \<Rightarrow> pyval \<times> world" where
  "process_order_message E chat_message user_id w =
     (case call_model E (order_prompt chat_message user_id) w of
        (Inl e, w1) \<Rightarrow>
          (PDict [(''success'', PBool False),
                  (''error'', PStr (''Failed to process order: '' @ str_exn e)),
                  (''order_details'',
                   PDict [(''items'', PList []),
                          (''special_instructions'', PStr []),
                          (''delivery_preference'', PStr ''not specified''),
                          (''additional_requirements'', PStr []),
                          (''ai_analysis'', PStr ''Failed to process with AI'')])], w1)
      | (Inr text, w1) \<Rightarrow>
          (let order_details = parse_ai_response E text chat_message
           in (PDict [(''success'', PBool True),
                      (''order_details'', PDict order_details),
                      (''ai_analysis'', dict_get order_details ''ai_analysis'' (PStr [])),
                      (''processed_message'', PStr chat_message)], w1)))"

section \<open>The HTTP layer (main.py)\<close>

text \<open>An endpoint answers with a body, or raises \<open>HTTPException(status_code, detail)\<close>.\<close>

datatype http_response = HTTPException nat string | Response pyval




text \<open>\<open>ProductCreate\<close>, validated by the framework: the price is a float, the quantity an integer.\<close>

record product_create =
  pc_category :: string
  pc_companyName :: string
  pc_description :: string
  pc_imageUrl :: string
  pc_name :: string
  pc_price :: rat
  pc_quantity :: int
  pc_sku :: string
  pc_userType :: string

definition product_dict :: "product_create \<Rightarrow> pydict" where
  "product_dict p =
     [(''category'', PStr (pc_category p)),
      (''companyName'', PStr (pc_companyName p)),
      (''description'', PStr (pc_description p)),
      (''imageUrl'', PStr (pc_imageUrl p)),
      (''name'', PStr (pc_name p)),
      (''price'', PFloat (pc_price p)),
      (''quantity'', PInt (pc_quantity p)),
      (''sku'', PStr (pc_sku p)),
      (''userType'', PStr (pc_userType p))]"

text \<open>
  \<open>POST /products\<close>: a blank name, a price that is not positive and a negative quantity
  are refused with status 400 before the store is called; a failure of the store is
  status 500.
\<close>

definition endpoint_create_product :: "env \<Rightarrow> product_create \<Rightarrow> world \<Rightarrow> http_response \<times> world" where
  "endpoint_create_product E product_data w =
     (if strip (pc_name product_data) = []
      then (HTTPException 400 ''Product name is required'', w)
      else if pc_price product_data \<le> 0
      then (HTTPException 400 ''Price must be greater than 0'', w)
      else if pc_quantity product_data < 0
      then (HTTPException 400 ''Quantity cannot be negative'', w)
      else (case create_product E (product_dict product_data) w of
              (Inl e, w1) \<Rightarrow> (HTTPException 500 (''Failed to create product: '' @ str_exn e), w1)
            | (Inr product_id, w1) \<Rightarrow>
                (Response (PDict [(''success'', PBool True),
                                  (''product_id'', PStr product_id),
                                  (''message'', PStr ''Product created successfully''),
                                  (''data'', PDict (product_dict product_data))]), w1)))"

section \<open>A JSON reader for the closed examples\<close>

text \<open>
  \<open>json.loads\<close> is a parameter of the model, and the general results hold for any reader.
  The examples at concrete replies need a concrete one: \<open>loads\<close> reads the JSON grammar
  (RFC 8259) as the standard library does: whitespace is space, tab, line feed and
  carriage return; a number without fraction and exponent is an integer, any other a
  float; a repeated key keeps its last value; text after the value is an error. Strings
  are those of the model (code points below 256), so an escape \<open>\u\<close> above \<open>00ff\<close> and
  the constants \<open>NaN\<close> and \<open>Infinity\<close> are not read. The fuel bounds the nesting
  and the number of entries; the length of the text is always enough.
\<close>

definition is_ws :: "char \<Rightarrow> bool" where
  "is_ws c = (c = CHR '' '' \<or> c = CHR 0x09 \<or> c = CHR 0x0A \<or> c = CHR 0x0D)"

definition skip_ws :: "string \<Rightarrow> string" where
  "skip_ws s = dropWhile is_ws s"

definition is_digit :: "char \<Rightarrow> bool" where
  "is_digit c = (let n = (of_char c :: nat) in 48 \<le> n \<and> n \<le> 57)"

definition digits_val :: "string \<Rightarrow> nat" where
  "digits_val ds = foldl (\<lambda>a c. 10 * a + (of_char c - 48)) 0 ds"

definition hex_val :: "char \<Rightarrow> nat option" where
  "hex_val c =
     (let n = (of_char c :: nat)
      in if 48 \<le> n \<and> n \<le> 57 then Some (n - 48)
         else if 97 \<le> n \<and> n \<le> 102 then Some (n - 87)
         else if 65 \<le> n \<and> n \<le> 70 then Some (n - 55)
         else None)"

text \<open>The characters of a string literal after its opening quote, up to the closing one.\<close>

fun parse_string :: "string \<Rightarrow> string \<Rightarrow> (string \<times> string) option" where
  "parse_string [] acc = None"
| "parse_string (c # cs) acc =
     (if c = CHR 0x22 then Some (rev acc, cs)
      else if c = CHR 0x5C
      then (case cs of
              [] \<Rightarrow> None
            | e # r \<Rightarrow>
                if e = CHR 0x22 \<or> e = CHR 0x5C \<or> e = CHR ''/'' then parse_string r (e # acc)
                else if e = CHR ''b'' then parse_string r (CHR 0x08 # acc)
                else if e = CHR ''f'' then parse_string r (CHR 0x0C # acc)
                else if e = CHR ''n'' then parse_string r (CHR 0x0A # acc)
                else if e = CHR ''r'' then parse_string r (CHR 0x0D # acc)
                else if e = CHR ''t'' then parse_string r (CHR 0x09 # acc)
                else if e = CHR ''u''
                then (case r of
                        a # b # x # y # r2 \<Rightarrow>
                          (case (hex_val a, hex_val b, hex_val x, hex_val y) of
                             (Some 0, Some 0, Some h, Some l) \<Rightarrow> parse_string r2 (char_of (16 * h + l) # acc)
                           | _ \<Rightarrow> None)
                      | _ \<Rightarrow> None)
                else None)
      else if (of_char c :: nat) < 32 then None
      else parse_string cs (c # acc))"

text \<open>A number: \<open>-?(0|[1-9][0-9]*)(\.[0-9]+)?([eE][-+]?[0-9]+)?\<close>, the longest match.\<close>

definition parse_fraction :: "string \<Rightarrow> (string \<times> string) option" where
  "parse_fraction s =
     (case s of
        c # r \<Rightarrow>
          if c = CHR ''.'' \<and> takeWhile is_digit r \<noteq> []
          then Some (takeWhile is_digit r, dropWhile is_digit r) else None
      | [] \<Rightarrow> None)"

definition parse_exponent :: "string \<Rightarrow> (int \<times> string) option" where
  "parse_exponent s =
     (case s of
        c # r \<Rightarrow>
          if c = CHR ''e'' \<or> c = CHR ''E''
          then (let (neg, r1) = (case r of
                                   d # r' \<Rightarrow> if d = CHR ''-'' then (True, r')
                                              else if d = CHR ''+'' then (False, r') else (False, r)
                                 | [] \<Rightarrow> (False, r))
                in if takeWhile is_digit r1 = [] then None
                   else Some ((if neg then - 1 else 1) * int (digits_val (takeWhile is_digit r1)),
                              dropWhile is_digit r1))
          else None
      | [] \<Rightarrow> None)"

definition pow10 :: "int \<Rightarrow> rat" where
  "pow10 e = (if e < 0 then 1 / (10 ^ nat (- e)) else 10 ^ nat e)"

definition parse_number :: "string \<Rightarrow> (pyval \<times> string) option" where
  "parse_number s =
     (let (neg, s1) = (case s of
                         c # r \<Rightarrow> if c = CHR ''-'' then (True, r) else (False, s)
                       | [] \<Rightarrow> (False, s))
      in case s1 of
           [] \<Rightarrow> None
         | d # r \<Rightarrow>
             if \<not> is_digit d then None
             else (let (ip, s2) = (if d = CHR ''0'' then ([d], r)
                                   else (takeWhile is_digit s1, dropWhile is_digit s1));
                       (fp, s3) = (case parse_fraction s2 of
                                     Some (ds, r3) \<Rightarrow> (Some ds, r3) | None \<Rightarrow> (None, s2));
                       (ep, s4) = (case parse_exponent s3 of
                                     Some (e, r4) \<Rightarrow> (Some e, r4) | None \<Rightarrow> (None, s3));
                       sgn = (if neg then - 1 else 1)
                   in if fp = None \<and> ep = None
                      then Some (PInt (sgn * int (digits_val ip)), s4)
                      else (let frac = (case fp of
                                          None \<Rightarrow> 0
                                        | Some ds \<Rightarrow> of_nat (digits_val ds) / (10 ^ length ds));
                                ex = (case ep of None \<Rightarrow> 0 | Some e \<Rightarrow> e)
                            in Some (PFloat (of_int sgn * (of_nat (digits_val ip) + frac) * pow10 ex), s4))))"

text \<open>Values, the elements of a list after \<open>[\<close> and the members of an object after \<open>{\<close>.\<close>

fun parse_value :: "nat \<Rightarrow> string \<Rightarrow> (pyval \<times> string) option"
  and parse_elements :: "nat \<Rightarrow> string \<Rightarrow> pyval list \<Rightarrow> (pyval \<times> string) option"
  and parse_members :: "nat \<Rightarrow> string \<Rightarrow> pydict \<Rightarrow> (pyval \<times> string) option" where
  "parse_value 0 s = None"
| "parse_value (Suc n) s =
     (case s of
        [] \<Rightarrow> None
      | c # cs \<Rightarrow>
          if c = CHR 0x22
          then (case parse_string cs [] of None \<Rightarrow> None | Some (str, r) \<Rightarrow> Some (PStr str, r))
          else if c = CHR ''{''
          then (case skip_ws cs of
                  [] \<Rightarrow> None
                | d # r \<Rightarrow> if d = CHR ''}'' then Some (PDict [], r) else parse_members n (d # r) [])
          else if c = CHR ''[''
          then (case skip_ws cs of
                  [] \<Rightarrow> None
                | d # r \<Rightarrow> if d = CHR '']'' then Some (PList [], r) else parse_elements n (d # r) [])
          else if is_prefix ''null'' s then Some (PNone, drop 4 s)
          else if is_prefix ''true'' s then Some (PBool True, drop 4 s)
          else if is_prefix ''false'' s then Some (PBool False, drop 5 s)
          else parse_number s)"
| "parse_elements 0 s acc = None"
| "parse_elements (Suc n) s acc =
     (case parse_value n s of
        None \<Rightarrow> None
      | Some (v, r) \<Rightarrow>
          (case skip_ws r of
             [] \<Rightarrow> None
           | d # r1 \<Rightarrow>
               if d = CHR '']'' then Some (PList (acc @ [v]), r1)
               else if d = CHR '','' then parse_elements n (skip_ws r1) (acc @ [v])
               else None))"
| "parse_members 0 s acc = None"
| "parse_members (Suc n) s acc =
     (case s of
        [] \<Rightarrow> None
      | q # cs \<Rightarrow>
          if q \<noteq> CHR 0x22 then None
          else (case parse_string cs [] of
                  None \<Rightarrow> None
                | Some (key, r) \<Rightarrow>
                    (case skip_ws r of
                       [] \<Rightarrow> None
                     | colon # r1 \<Rightarrow>
                         if colon \<noteq> CHR '':'' then None
                         else (case parse_value n (skip_ws r1) of
                                 None \<Rightarrow> None
                               | Some (v, r2) \<Rightarrow>
                                   (case skip_ws r2 of
                                      [] \<Rightarrow> None
                                    | d # r3 \<Rightarrow>
                                        if d = CHR ''}'' then Some (PDict (dict_set acc key v), r3)
                                        else if d = CHR '','' then parse_members n (skip_ws r3) (dict_set acc key v)
                                        else None)))))"

definition loads :: "string \<Rightarrow> exn + pyval" where
  "loads s =
     (case parse_value (Suc (length s)) (skip_ws s) of
        None \<Rightarrow> Inl (Exn JSONDecodeError ''Expecting value'')
      | Some (v, r) \<Rightarrow>
          if skip_ws r = [] then Inr v else Inl (Exn JSONDecodeError ''Extra data''))"

text \<open>
  The environment of the examples: the model answers every prompt with \<open>reply\<close>, the
  store works, its identifiers are \<open>doc0\<close>, \<open>doc1\<close>, ..., the clock counts.
\<close>

definition stub_env :: "exn + string \<Rightarrow> env" where
  "stub_env reply =
     \<lparr>generate_content = (\<lambda>prompt. reply),
      json_loads = loads,
      repr_other = (\<lambda>v. ''<object>''),
      store_fault = (\<lambda>n. None),
      new_id = (\<lambda>n. ''doc'' @ str_nat n),
      isoformat = (\<lambda>n. str_nat n)\<rparr>"

definition empty_world :: world where
  "empty_world = \<lparr>products = [], orders = [], store_calls = [], prompts = [], clock = 0\<rparr>"

text \<open>A store with 15 products of one seller and one product of another.\<close>

definition seller_world :: world where
  "seller_world =
     empty_world\<lparr>products :=
       map (\<lambda>i. (''p'' @ str_nat i, [(''userId'', PStr ''seller-1''), (''quantity'', PInt (int i))])) [0..<15]
       @ [(''q'', [(''userId'', PStr ''seller-2'')])]\<rparr>"

text \<open>A store that holds the product \<open>ABC123\<close>.\<close>

definition abc_world :: world where
  "abc_world = empty_world\<lparr>products := [(''ABC123'', [(''name'', PStr ''Gaming Mouse''), (''quantity'', PInt 3)])]\<rparr>"

section \<open>Verified properties\<close>

subsection \<open>The registry\<close>

lemma bind_missing:
  assumes "p \<in> set (required sg)" and "map_of kv p = None"
  shows "\<exists>e. bind sg (PDict kv) = Inl e"
proof (cases "check_keywords sg (map fst kv)")
  case (Some e)
  then show ?thesis by (simp add: bind_def)
next
  case None
  have "p \<in> set (filter (\<lambda>p. map_of kv p = None) (required sg))"
    using assms by simp
  then obtain m ms where "filter (\<lambda>p. map_of kv p = None) (required sg) = m # ms"
    by (cases "filter (\<lambda>p. map_of kv p = None) (required sg)") auto
  with None show ?thesis by (simp add: bind_def)
qed

lemma requires_sig:
  assumes "p \<in> set (required (sig f))"
  shows "requires_argument f p"
  unfolding requires_argument_def
proof (intro allI impI)
  fix E :: env and kv :: pydict and w :: world
  assume "map_of kv p = None"
  then obtain e where "bind (sig f) (PDict kv) = Inl e"
    using bind_missing [OF assms] by blast
  then show "call_fails (invoke E f (PDict kv) w) w"
    by (simp add: invoke_def call_fails_def)
qed

lemma create_product_fails:
  assumes "field \<in> set required_fields" and "map_of kwargs field = None"
  shows "\<exists>msg. agent_create_product E kwargs w = (error_result msg, w)"
proof -
  have "find (\<lambda>field. map_of kwargs field = None) required_fields \<noteq> None"
    using assms by (auto simp: find_None_iff)
  then show ?thesis
    by (auto simp: agent_create_product_def)
qed

lemma create_product_entry:
  "map_of available_functions ''create_product'' =
     Some \<lparr>sig = \<lparr>required = [], defaults = [], var_keyword = True\<rparr>,
           run = (\<lambda>E b. agent_create_product E (b_kwargs b))\<rparr>"
  by (simp add: available_functions_def)

lemma requires_create:
  assumes "p \<in> set required_fields"
    and "map_of available_functions ''create_product'' = Some f"
  shows "requires_argument f p"
  unfolding requires_argument_def
proof (intro allI impI)
  fix E :: env and kv :: pydict and w :: world
  assume miss: "map_of kv p = None"
  have f: "f = \<lparr>sig = \<lparr>required = [], defaults = [], var_keyword = True\<rparr>,
                 run = (\<lambda>E b. agent_create_product E (b_kwargs b))\<rparr>"
    using assms(2) create_product_entry by simp
  obtain msg where msg: "agent_create_product E kv w = (error_result msg, w)"
    using create_product_fails [OF assms(1) miss] by blast
  show "call_fails (invoke E f (PDict kv) w) w"
    by (cases "check_keywords \<lparr>required = [], defaults = [], var_keyword = True\<rparr> (map fst kv)")
       (simp_all add: f invoke_def bind_def call_fails_def param_names_def msg error_result_def)
qed

lemma declared_in_signature:
  "\<forall>d \<in> set function_descriptions. d_name d \<noteq> ''create_product'' \<longrightarrow>
     (case map_of available_functions (d_name d) of
        Some f \<Rightarrow> set (declared_required d) \<subseteq> set (required (sig f))
      | None \<Rightarrow> False)"
  by code_simp

lemma declared_in_required_fields:
  "\<forall>d \<in> set function_descriptions. d_name d = ''create_product'' \<longrightarrow>
     set (declared_required d) \<subseteq> set required_fields"
  by code_simp

lemma registry_tables:
  "length function_descriptions = 11
   \<and> distinct (map d_name function_descriptions)
   \<and> distinct (map fst available_functions)
   \<and> set (map d_name function_descriptions) = set (map fst available_functions)"
  by code_simp

text \<open>
  Claim C9. The registry is consistent: there are 11 descriptors, no operation name
  occurs twice among them, the names of the descriptors are exactly the keys of the
  mapping from names to methods, and every parameter that a descriptor declares
  required is an argument its method requires: a call of the registered method without
  it raises or answers \<open>success: False\<close>, with the world unchanged.
\<close>

theorem registry_consistent:
  "length function_descriptions = 11
   \<and> distinct (map d_name function_descriptions)
   \<and> distinct (map fst available_functions)
   \<and> set (map d_name function_descriptions) = set (map fst available_functions)
   \<and> (\<forall>d \<in> set function_descriptions. \<forall>p \<in> set (declared_required d).
         \<exists>f. map_of available_functions (d_name d) = Some f \<and> requires_argument f p)"
proof -
  have "\<exists>f. map_of available_functions (d_name d) = Some f \<and> requires_argument f p"
    if d: "d \<in> set function_descriptions" and p: "p \<in> set (declared_required d)" for d p
  proof (cases "d_name d = ''create_product''")
    case True
    have "p \<in> set required_fields"
      using declared_in_required_fields d p True by blast
    then show ?thesis
      using requires_create create_product_entry True by auto
  next
    case False
    then obtain f where f: "map_of available_functions (d_name d) = Some f"
      and sub: "set (declared_required d) \<subseteq> set (required (sig f))"
      using declared_in_signature d by (auto split: option.splits)
    then show ?thesis
      using requires_sig p by blast
  qed
  with registry_tables show ?thesis by blast
qed

theorem registry_consistent_witness:
  "(\<exists>f. map_of available_functions ''create_product'' = Some f
        \<and> call_fails (invoke (stub_env (Inr [])) f
             (PDict [(''name'', PStr ''Gaming Mouse''), (''quantity'', PInt 10)]) seller_world) seller_world)
   \<and> (\<exists>f. map_of available_functions ''update_product_quantity'' = Some f
        \<and> call_fails (invoke (stub_env (Inr [])) f
             (PDict [(''product_id'', PStr ''p3'')]) seller_world) seller_world)"
proof -
  have d1: "function_descriptions ! 2 \<in> set function_descriptions"
    and n1: "d_name (function_descriptions ! 2) = ''create_product''"
    and p1: "''price'' \<in> set (declared_required (function_descriptions ! 2))"
    and d2: "function_descriptions ! 6 \<in> set function_descriptions"
    and n2: "d_name (function_descriptions ! 6) = ''update_product_quantity''"
    and p2: "''quantity'' \<in> set (declared_required (function_descriptions ! 6))"
    by code_simp+
  from registry_consistent d1 p1 n1
  obtain f where f: "map_of available_functions ''create_product'' = Some f"
    and rf: "requires_argument f ''price''"
    by fastforce
  from registry_consistent d2 p2 n2
  obtain g where g: "map_of available_functions ''update_product_quantity'' = Some g"
    and rg: "requires_argument g ''quantity''"
    by fastforce
  have "call_fails (invoke (stub_env (Inr [])) f
          (PDict [(''name'', PStr ''Gaming Mouse''), (''quantity'', PInt 10)]) seller_world) seller_world"
    using rf unfolding requires_argument_def by simp
  moreover have "call_fails (invoke (stub_env (Inr [])) g
          (PDict [(''product_id'', PStr ''p3'')]) seller_world) seller_world"
    using rg unfolding requires_argument_def by simp
  ultimately show ?thesis using f g by blast
qed

subsection \<open>Updating a product without data\<close>

text \<open>
  Claim C10. When every keyword argument given to the agent's update-product operation
  is \<open>None\<close> (or none is given), the operation answers
  \<open>{"success": False, "error": "No valid update data provided"}\<close> and the world is
  what it was: no call went to the document store and no product changed.
\<close>

theorem update_product_without_data:
  assumes "\<forall>kv \<in> set kwargs. snd kv = PNone"
  shows "agent_update_product E product_id kwargs w =
           (PDict [(''success'', PBool False), (''error'', PStr ''No valid update data provided'')], w)
         \<and> store_calls (snd (agent_update_product E product_id kwargs w)) = store_calls w
         \<and> products (snd (agent_update_product E product_id kwargs w)) = products w"
proof -
  have "filter (\<lambda>(k, v). v \<noteq> PNone) kwargs = []"
    using assms by (auto simp: filter_empty_conv)
  then show ?thesis
    by (simp add: agent_update_product_def error_result_def)
qed

theorem update_product_without_data_witness:
  "agent_update_product (stub_env (Inr [])) (PStr ''ABC123'') [(''name'', PNone), (''price'', PNone)]
        (empty_world\<lparr>products := [(''ABC123'', [(''quantity'', PInt 3)])]\<rparr>) =
       (PDict [(''success'', PBool False), (''error'', PStr ''No valid update data provided'')],
        empty_world\<lparr>products := [(''ABC123'', [(''quantity'', PInt 3)])]\<rparr>)"
proof -
  have h: "\<forall>kv \<in> set [(''name'', PNone), (''price'', PNone)]. snd kv = PNone"
    by simp
  show ?thesis
    using update_product_without_data [OF h, of "stub_env (Inr [])" "PStr ''ABC123''"
        "empty_world\<lparr>products := [(''ABC123'', [(''quantity'', PInt 3)])]\<rparr>"]
    by simp
qed

subsection \<open>Pagination of a seller's products\<close>

lemma ceil_div:
  fixes n l :: int
  assumes "1 \<le> l"
  shows "(n + l - 1) div l = - (- n div l)"
proof -
  define q r where "q = n div l" and "r = n mod l"
  have n: "n = l * q + r" by (simp add: q_def r_def)
  have r: "0 \<le> r" "r < l" using assms by (simp_all add: r_def)
  show ?thesis
  proof (cases "r = 0")
    case True
    have a: "(n + l - 1) div l = q"
      by (rule int_div_pos_eq [where r = "l - 1"]) (use n True assms in \<open>simp_all add: algebra_simps\<close>)
    have b: "(- n) div l = - q"
      by (rule int_div_pos_eq [where r = 0]) (use n True assms in \<open>simp_all add: algebra_simps\<close>)
    show ?thesis using a b by simp
  next
    case False
    have a: "(n + l - 1) div l = q + 1"
      by (rule int_div_pos_eq [where r = "r - 1"]) (use n False r in \<open>simp_all add: algebra_simps\<close>)
    have b: "(- n) div l = - q - 1"
      by (rule int_div_pos_eq [where r = "l - r"]) (use n False r in \<open>simp_all add: algebra_simps\<close>)
    show ?thesis using a b by simp
  qed
qed

lemma pages_ceiling:
  fixes n l :: int
  assumes "1 \<le> l"
  shows "(n + l - 1) div l = \<lceil>rat_of_int n / rat_of_int l\<rceil>"
  using ceil_div [OF assms, of n] by (simp add: ceiling_divide_eq_div)

lemma seller_world_matching:
  "length (matching seller_world ''products'' ''userId'' (PStr ''seller-1'')) = 15"
  by code_simp

text \<open>
  Claim C7. When the store answers both streams, for a page number and a limit of at
  least 1, \<open>get_seller_products(user_id, page, limit)\<close> returns the slice of the seller's
  \<open>n\<close> matching documents that starts at offset \<open>(page - 1) * limit\<close> and has at most
  \<open>limit\<close> documents, \<open>total_pages\<close> equal to the ceiling of \<open>n / limit\<close>, and
  \<open>current_page\<close> equal to \<open>page\<close>. With 15 matching documents, page 2 and limit 10
  these are 5 products, 2 pages and page 2 (the witness).
\<close>

theorem get_seller_products_page:
  assumes f1: "store_fault E (length (store_calls w)) = None"
    and f2: "store_fault E (Suc (length (store_calls w))) = None"
    and p: "1 \<le> page" and l: "1 \<le> limit"
  shows "get_seller_products E user_id page limit w =
    (let docs = matching w ''products'' ''userId'' user_id;
         page_docs = take (nat limit) (drop (nat ((page - 1) * limit)) docs)
     in (Inr [(''products'', PList (map with_id page_docs)),
              (''count'', PInt (int (length page_docs))),
              (''total_count'', PInt (int (length docs))),
              (''total_pages'', PInt \<lceil>rat_of_int (int (length docs)) / rat_of_int limit\<rceil>),
              (''current_page'', PInt page),
              (''limit'', PInt limit)],
         w\<lparr>store_calls := store_calls w @ [StoreStream ''products'', StoreStream ''products''],
           clock := Suc (Suc (clock w))\<rparr>))
    \<and> length (take (nat limit) (drop (nat ((page - 1) * limit))
                 (matching w ''products'' ''userId'' user_id))) \<le> nat limit"
proof -
  have off: "\<not> (page - 1) * limit < 0" using p l by (simp add: mult_less_0_iff)
  have lim: "\<not> limit < 0" "limit \<noteq> 0" using l by simp_all
  show ?thesis
    using f1 f2 off lim
    by (simp add: get_seller_products_def store_stream_def store_enter_def Let_def matching_def
        collection_def pages_ceiling [OF l])
qed

theorem get_seller_products_page_witness:
  "fst (get_seller_products (stub_env (Inr [])) (PStr ''seller-1'') 2 10 seller_world) =
     Inr [(''products'',
           PList (map with_id (drop 10 (matching seller_world ''products'' ''userId'' (PStr ''seller-1''))))),
          (''count'', PInt 5),
          (''total_count'', PInt 15),
          (''total_pages'', PInt 2),
          (''current_page'', PInt 2),
          (''limit'', PInt 10)]"
proof -
  have c: "\<lceil>(3::rat) / 2\<rceil> = 2"
    using pages_ceiling [of 10 15] by simp
  show ?thesis
    using get_seller_products_page [of "stub_env (Inr [])" seller_world 2 10 "PStr ''seller-1''"]
      seller_world_matching c
    by (simp add: stub_env_def Let_def)
qed

subsection \<open>Lemmas on the operations and the dispatcher\<close>

text \<open>No operation and no call to the store sends a prompt to the model.\<close>

lemma set_collection_prompts [simp]: "prompts (set_collection c docs w) = prompts w"
  by (simp add: set_collection_def)














text \<open>The dispatcher, once the model has replied.\<close>

lemma create_system_prompt_ok:
  "context = PNone \<or> context = PDict kv \<Longrightarrow> \<exists>sp. create_system_prompt E context = Inr sp"
  by (auto simp: create_system_prompt_def)

lemma nlq_reply:
  assumes ctx: "context = PNone \<or> context = PDict kv"
    and reply: "generate_content E (user_prompt query) = Inr text"
  shows "process_natural_language_query E query context w =
     (case parse_response E text of
        Inl e \<Rightarrow> on_exception (Inl e, w\<lparr>prompts := prompts w @ [user_prompt query], clock := Suc (clock w)\<rparr>)
      | Inr (Inl early) \<Rightarrow> (early, w\<lparr>prompts := prompts w @ [user_prompt query], clock := Suc (clock w)\<rparr>)
      | Inr (Inr result) \<Rightarrow>
          on_exception (execute E result (w\<lparr>prompts := prompts w @ [user_prompt query], clock := Suc (clock w)\<rparr>)))"
proof -
  obtain sp where sp: "create_system_prompt E context = Inr sp"
    using create_system_prompt_ok [OF ctx] by blast
  show ?thesis
    by (simp add: process_natural_language_query_def process_natural_language_query_try_def sp
        call_model_def reply on_exception_def split: sum.splits)
qed

text \<open>Whatever happens, the dispatcher answers a dictionary with a boolean \<open>success\<close>.\<close>

lemma on_exception_success:
  assumes "\<And>r w1. outcome = (Inr r, w1) \<Longrightarrow> has_status r"
  shows "has_status (fst (on_exception outcome))"
  using assms by (cases outcome) (auto simp: on_exception_def has_status_def result_field_def split: sum.splits)

lemma execute_success:
  "execute E result w = (Inr r, w1) \<Longrightarrow> has_status r"
  by (auto simp: execute_def Let_def has_status_def result_field_def
      split: pyval.splits sum.splits option.splits prod.splits)

lemma parse_response_early:
  "parse_response E text = Inr (Inl early) \<Longrightarrow>
     early = PDict [(''success'', PBool False), (''error'', PStr ''Failed to parse AI response''),
                    (''raw_response'', PStr text)]"
  by (auto simp: parse_response_def split: sum.splits option.splits if_splits)

lemma try_success:
  "process_natural_language_query_try E query context w = (Inr r, w1) \<Longrightarrow> has_status r"
  by (auto simp: process_natural_language_query_try_def call_model_def has_status_def result_field_def
      dest!: parse_response_early execute_success split: sum.splits prod.splits)

lemma nlq_success:
  "has_status (fst (process_natural_language_query E query context w))"
  unfolding process_natural_language_query_def
  by (rule on_exception_success) (erule try_success)

text \<open>The environment of the examples.\<close>

lemma stub_env_simps [simp]:
  "generate_content (stub_env reply) prompt = reply"
  "json_loads (stub_env reply) = loads"
  "store_fault (stub_env reply) n = None"
  "new_id (stub_env reply) n = ''doc'' @ str_nat n"
  "isoformat (stub_env reply) n = str_nat n"
  by (simp_all add: stub_env_def)

subsection \<open>Exceptions of an invocation\<close>




subsection \<open>No matching operation\<close>

lemma descriptor_names:
  "map (\<lambda>f. PStr (d_name f)) function_descriptions = map PStr (map fst available_functions)"
  by (simp add: function_descriptions_def available_functions_def)

lemma function_selected_no_match:
  assumes "\<not> truthy fn \<or> (hashable fn \<and> fn \<notin> PStr ` set (map fst available_functions))"
  shows "function_selected fn = Inr None"
proof (cases "truthy fn")
  case False
  then show ?thesis by (simp add: function_selected_def)
next
  case True
  with assms have h: "hashable fn" and n: "fn \<notin> PStr ` set (map fst available_functions)"
    by auto
  have "(case fn of PStr s \<Rightarrow> map_of available_functions s | _ \<Rightarrow> None) = None"
  proof (cases fn)
    case (PStr s)
    with n have "s \<notin> fst ` set available_functions" by auto
    then show ?thesis using PStr by (simp add: map_of_eq_None_iff)
  qed simp_all
  with True h show ?thesis by (simp add: function_selected_def)
qed

text \<open>
  Claim C5, as amended. For every parsed output of the model that is an object whose
  \<open>function_name\<close> is absent, null or otherwise falsy, or is a hashable value (a string,
  a number, a boolean) that is not a key of the registry, the dispatcher returns
  \<open>success = False\<close>, \<open>function_called = None\<close>, the model's explanation (or
  \<open>"No matching function found"\<close> when it gave none) and \<open>available_functions\<close> equal to
  the names of the 11 registered operations.
\<close>

theorem no_match_result:
  assumes ctx: "context = PNone \<or> context = PDict kv"
    and reply: "generate_content E (user_prompt query) = Inr text"
    and parsed: "parse_response E text = Inr (Inr (PDict r))"
    and nomatch: "\<not> truthy (dict_get r ''function_name'' PNone)
                  \<or> (hashable (dict_get r ''function_name'' PNone)
                      \<and> dict_get r ''function_name'' PNone \<notin> PStr ` set (map fst available_functions))"
  shows "process_natural_language_query E query context w =
           (PDict [(''success'', PBool False),
                   (''function_called'', PNone),
                   (''explanation'', dict_get r ''explanation'' (PStr ''No matching function found'')),
                   (''available_functions'', PList (map PStr (map fst available_functions)))],
            w\<lparr>prompts := prompts w @ [user_prompt query], clock := Suc (clock w)\<rparr>)
         \<and> length (map fst available_functions) = 11"
proof -
  have len: "length (map fst available_functions) = 11"
    by (simp add: available_functions_def)
  have "process_natural_language_query E query context w =
      on_exception (execute E (PDict r) (w\<lparr>prompts := prompts w @ [user_prompt query], clock := Suc (clock w)\<rparr>))"
    using nlq_reply [OF ctx reply, of w] parsed by simp
  then show ?thesis
    using function_selected_no_match [OF nomatch] len
    by (simp add: execute_def on_exception_def descriptor_names)
qed

lemma loads_null_function:
  \<open>loads ''{"function_name": null, "parameters": {}, "explanation": "No matching function found for this query"}'' =
     Inr (PDict [(''function_name'', PNone), (''parameters'', PDict []),
                 (''explanation'', PStr ''No matching function found for this query'')])\<close>
  by code_simp

theorem no_match_result_witness:
  \<open>fst (process_natural_language_query
          (stub_env (Inr ''{"function_name": null, "parameters": {}, "explanation": "No matching function found for this query"}''))
          ''Tell me about the weather'' (PDict []) empty_world) =
     PDict [(''success'', PBool False),
            (''function_called'', PNone),
            (''explanation'', PStr ''No matching function found for this query''),
            (''available_functions'',
             PList [PStr ''get_seller_products'', PStr ''get_product_details'', PStr ''create_product'',
                    PStr ''update_product'', PStr ''delete_product'', PStr ''search_products'',
                    PStr ''update_product_quantity'', PStr ''get_user_orders'', PStr ''get_order_details'',
                    PStr ''place_order'', PStr ''update_order_status''])]\<close>
proof -
  let ?text = \<open>''{"function_name": null, "parameters": {}, "explanation": "No matching function found for this query"}''\<close>
  let ?r = "[(''function_name'', PNone), (''parameters'', PDict []),
             (''explanation'', PStr ''No matching function found for this query'')]"
  have p: "parse_response (stub_env (Inr ?text)) ?text = Inr (Inr (PDict ?r))"
    by (simp add: parse_response_def loads_null_function)
  have n: "\<not> truthy (dict_get ?r ''function_name'' PNone)"
    by (simp add: dict_get_def)
  show ?thesis
    using no_match_result [of "PDict []" "[]" "stub_env (Inr ?text)" "''Tell me about the weather''" ?text ?r
        empty_world] p n
    by (simp add: dict_get_def available_functions_def)
qed

lemma loads_list_function:
  \<open>loads ''{"function_name": ["x"], "parameters": {}, "explanation": "unsure"}'' =
     Inr (PDict [(''function_name'', PList [PStr ''x'']), (''parameters'', PDict []),
                 (''explanation'', PStr ''unsure'')])\<close>
  by code_simp

text \<open>
  The claim as first stated also covers a \<open>function_name\<close> that is a non-empty list or
  object: such a value is not a key of the registry, but the membership test raises on
  it and the dispatcher answers with the error of its handler, without
  \<open>available_functions\<close>.
\<close>

theorem no_match_counterexample:
  \<open>loads ''{"function_name": ["x"], "parameters": {}, "explanation": "unsure"}'' =
     Inr (PDict [(''function_name'', PList [PStr ''x'']), (''parameters'', PDict []),
                 (''explanation'', PStr ''unsure'')])
   \<and> PList [PStr ''x''] \<notin> PStr ` set (map fst available_functions)
   \<and> fst (process_natural_language_query
            (stub_env (Inr ''{"function_name": ["x"], "parameters": {}, "explanation": "unsure"}''))
            ''Show me all my products'' (PDict []) empty_world) =
       PDict [(''success'', PBool False),
              (''error'', PStr (''Failed to process query: unhashable type: '' @ quote @ ''list'' @ quote))]
   \<and> result_field (fst (process_natural_language_query
            (stub_env (Inr ''{"function_name": ["x"], "parameters": {}, "explanation": "unsure"}''))
            ''Show me all my products'' (PDict []) empty_world)) ''available_functions'' = None\<close>
proof -
  let ?text = \<open>''{"function_name": ["x"], "parameters": {}, "explanation": "unsure"}''\<close>
  have p: "parse_response (stub_env (Inr ?text)) ?text =
             Inr (Inr (PDict [(''function_name'', PList [PStr ''x'']), (''parameters'', PDict []),
                 (''explanation'', PStr ''unsure'')]))"
    by (simp add: parse_response_def loads_list_function)
  have r: "fst (process_natural_language_query (stub_env (Inr ?text))
            ''Show me all my products'' (PDict []) empty_world) =
       PDict [(''success'', PBool False),
              (''error'', PStr (''Failed to process query: unhashable type: '' @ quote @ ''list'' @ quote))]"
    using nlq_reply [of "PDict []" "[]" "stub_env (Inr ?text)" "''Show me all my products''" ?text empty_world] p
    by (simp add: execute_def function_selected_def dict_get_def on_exception_def)
  show ?thesis
    using loads_list_function r by (auto simp: result_field_def)
qed

subsection \<open>The scenario of the quantity update\<close>

lemma str_int_25: "str_int 25 = ''25''"
  by code_simp

lemma update_product_quantity_call:
  "update_product_quantity E (PStr ''ABC123'') q w =
     (store_fault E (length (store_calls w)) = None \<and> map_of (products w) ''ABC123'' \<noteq> None,
      snd (update_product_quantity E (PStr ''ABC123'') q w))
   \<and> store_calls (snd (update_product_quantity E (PStr ''ABC123'') q w)) =
       store_calls w @ [StoreUpdate ''products'' ''ABC123'']"
  by (auto simp: update_product_quantity_def store_update_def store_enter_def document_def
      collection_def set_collection_def Let_def split: option.splits)

text \<open>
  Claim C6. When the model answers the query "Update the quantity of product ABC123 to
  25" (empty context) with the object naming \<open>update_product_quantity\<close> and the
  parameters \<open>product_id = "ABC123"\<close>, \<open>quantity = 25\<close>, the dispatcher calls the
  quantity-update method with exactly these two arguments (one update of document
  \<open>ABC123\<close> goes to the store) and returns \<open>success = True\<close> with the method's own
  result, which carries its own \<open>success\<close>, under \<open>result\<close>.
\<close>

theorem quantity_update_dispatch:
  assumes reply: "generate_content E (user_prompt ''Update the quantity of product ABC123 to 25'') = Inr text"
    and parsed: "json_loads E text =
        Inr (PDict [(''function_name'', PStr ''update_product_quantity''),
                    (''parameters'', PDict [(''product_id'', PStr ''ABC123''), (''quantity'', PInt 25)]),
                    (''explanation'', PStr explanation)])"
  shows "process_natural_language_query E ''Update the quantity of product ABC123 to 25'' (PDict []) w =
     (let (function_result, w2) =
            agent_update_product_quantity E (PStr ''ABC123'') (PInt 25)
              (w\<lparr>prompts := prompts w @ [user_prompt ''Update the quantity of product ABC123 to 25''],
                 clock := Suc (clock w)\<rparr>)
      in (PDict [(''success'', PBool True),
                 (''function_called'', PStr ''update_product_quantity''),
                 (''parameters'', PDict [(''product_id'', PStr ''ABC123''), (''quantity'', PInt 25)]),
                 (''explanation'', PStr explanation),
                 (''result'', function_result)], w2))
   \<and> fst (agent_update_product_quantity E (PStr ''ABC123'') (PInt 25)
              (w\<lparr>prompts := prompts w @ [user_prompt ''Update the quantity of product ABC123 to 25''],
                 clock := Suc (clock w)\<rparr>)) =
       (if store_fault E (length (store_calls w)) = None \<and> map_of (products w) ''ABC123'' \<noteq> None
        then PDict [(''success'', PBool True),
                    (''data'', PDict [(''product_id'', PStr ''ABC123''), (''quantity'', PInt 25)]),
                    (''message'', PStr ''Product quantity updated to 25'')]
        else PDict [(''success'', PBool False), (''error'', PStr ''Failed to update quantity'')])
   \<and> store_calls (snd (process_natural_language_query E ''Update the quantity of product ABC123 to 25''
                          (PDict []) w)) =
       store_calls w @ [StoreUpdate ''products'' ''ABC123'']"
proof -
  let ?q = "''Update the quantity of product ABC123 to 25''"
  let ?w1 = "w\<lparr>prompts := prompts w @ [user_prompt ?q], clock := Suc (clock w)\<rparr>"
  let ?r = "[(''function_name'', PStr ''update_product_quantity''),
             (''parameters'', PDict [(''product_id'', PStr ''ABC123''), (''quantity'', PInt 25)]),
             (''explanation'', PStr explanation)]"
  have p: "parse_response E text = Inr (Inr (PDict ?r))"
    by (simp add: parse_response_def parsed)
  have main: "process_natural_language_query E ?q (PDict []) w = on_exception (execute E (PDict ?r) ?w1)"
    using nlq_reply [of "PDict []" "[]" E ?q "text" w] reply p by simp
  have ex: "execute E (PDict ?r) ?w1 =
     (let (function_result, w2) = agent_update_product_quantity E (PStr ''ABC123'') (PInt 25) ?w1
      in (Inr (PDict [(''success'', PBool True),
                 (''function_called'', PStr ''update_product_quantity''),
                 (''parameters'', PDict [(''product_id'', PStr ''ABC123''), (''quantity'', PInt 25)]),
                 (''explanation'', PStr explanation),
                 (''result'', function_result)]), w2))"
    by (simp add: execute_def function_selected_def dict_get_def available_functions_def invoke_def
        bind_def param_names_def arg_def Let_def split: prod.splits)
  have c1: "process_natural_language_query E ?q (PDict []) w =
     (let (function_result, w2) = agent_update_product_quantity E (PStr ''ABC123'') (PInt 25) ?w1
      in (PDict [(''success'', PBool True),
                 (''function_called'', PStr ''update_product_quantity''),
                 (''parameters'', PDict [(''product_id'', PStr ''ABC123''), (''quantity'', PInt 25)]),
                 (''explanation'', PStr explanation),
                 (''result'', function_result)], w2))"
    by (simp add: main ex on_exception_def Let_def split: prod.splits)
  have u: "update_product_quantity E (PStr ''ABC123'') (PInt 25) ?w1 =
     (store_fault E (length (store_calls w)) = None \<and> map_of (products w) ''ABC123'' \<noteq> None,
      snd (update_product_quantity E (PStr ''ABC123'') (PInt 25) ?w1))"
    and sc: "store_calls (snd (update_product_quantity E (PStr ''ABC123'') (PInt 25) ?w1)) =
       store_calls w @ [StoreUpdate ''products'' ''ABC123'']"
    using update_product_quantity_call [of E "PInt 25" ?w1] by simp_all
  have c2: "fst (agent_update_product_quantity E (PStr ''ABC123'') (PInt 25) ?w1) =
       (if store_fault E (length (store_calls w)) = None \<and> map_of (products w) ''ABC123'' \<noteq> None
        then PDict [(''success'', PBool True),
                    (''data'', PDict [(''product_id'', PStr ''ABC123''), (''quantity'', PInt 25)]),
                    (''message'', PStr ''Product quantity updated to 25'')]
        else PDict [(''success'', PBool False), (''error'', PStr ''Failed to update quantity'')])"
    unfolding agent_update_product_quantity_def
    by (subst u) (simp add: error_result_def fstr_def py_str_def str_int_25)
  have c3: "store_calls (snd (process_natural_language_query E ?q (PDict []) w)) =
       store_calls w @ [StoreUpdate ''products'' ''ABC123'']"
    unfolding c1 agent_update_product_quantity_def
    by (subst u) (simp add: sc Let_def)
  show ?thesis using c1 c2 c3 by blast
qed

lemma loads_quantity_update:
  \<open>loads ''{"function_name":"update_product_quantity","parameters":{"product_id":"ABC123","quantity":25},"explanation":"..."}'' =
     Inr (PDict [(''function_name'', PStr ''update_product_quantity''),
                 (''parameters'', PDict [(''product_id'', PStr ''ABC123''), (''quantity'', PInt 25)]),
                 (''explanation'', PStr ''...'')])\<close>
  by code_simp



lemma str_nat_1: "str_nat (Suc 0) = ''1''"
  by code_simp

theorem quantity_update_dispatch_witness:
  \<open>fst (process_natural_language_query
          (stub_env (Inr ''{"function_name":"update_product_quantity","parameters":{"product_id":"ABC123","quantity":25},"explanation":"..."}''))
          ''Update the quantity of product ABC123 to 25'' (PDict []) abc_world) =
     PDict [(''success'', PBool True),
            (''function_called'', PStr ''update_product_quantity''),
            (''parameters'', PDict [(''product_id'', PStr ''ABC123''), (''quantity'', PInt 25)]),
            (''explanation'', PStr ''...''),
            (''result'',
             PDict [(''success'', PBool True),
                    (''data'', PDict [(''product_id'', PStr ''ABC123''), (''quantity'', PInt 25)]),
                    (''message'', PStr ''Product quantity updated to 25'')])]
   \<and> store_calls (snd (process_natural_language_query
          (stub_env (Inr ''{"function_name":"update_product_quantity","parameters":{"product_id":"ABC123","quantity":25},"explanation":"..."}''))
          ''Update the quantity of product ABC123 to 25'' (PDict []) abc_world)) =
       [StoreUpdate ''products'' ''ABC123'']
   \<and> products (snd (process_natural_language_query
          (stub_env (Inr ''{"function_name":"update_product_quantity","parameters":{"product_id":"ABC123","quantity":25},"explanation":"..."}''))
          ''Update the quantity of product ABC123 to 25'' (PDict []) abc_world)) =
       [(''ABC123'', [(''name'', PStr ''Gaming Mouse''), (''quantity'', PInt 25), (''updatedAt'', PStr ''1Z'')])]\<close>
proof -
  let ?text = \<open>''{"function_name":"update_product_quantity","parameters":{"product_id":"ABC123","quantity":25},"explanation":"..."}''\<close>
  let ?E = "stub_env (Inr ?text)"
  let ?q = "''Update the quantity of product ABC123 to 25''"
  let ?w1 = "abc_world\<lparr>prompts := prompts abc_world @ [user_prompt ?q], clock := Suc (clock abc_world)\<rparr>"
  have g: "generate_content ?E (user_prompt ?q) = Inr ?text"
    by simp
  have l: "json_loads ?E ?text =
        Inr (PDict [(''function_name'', PStr ''update_product_quantity''),
                    (''parameters'', PDict [(''product_id'', PStr ''ABC123''), (''quantity'', PInt 25)]),
                    (''explanation'', PStr ''...'')])"
    by (simp add: loads_quantity_update)
  note t = quantity_update_dispatch [OF g l, of abc_world]
  have a: "fst (process_natural_language_query ?E ?q (PDict []) abc_world) =
     PDict [(''success'', PBool True),
            (''function_called'', PStr ''update_product_quantity''),
            (''parameters'', PDict [(''product_id'', PStr ''ABC123''), (''quantity'', PInt 25)]),
            (''explanation'', PStr ''...''),
            (''result'', fst (agent_update_product_quantity ?E (PStr ''ABC123'') (PInt 25) ?w1))]"
    using t [THEN conjunct1] by (simp add: Let_def split: prod.splits)
  have b: "fst (agent_update_product_quantity ?E (PStr ''ABC123'') (PInt 25) ?w1) =
             PDict [(''success'', PBool True),
                    (''data'', PDict [(''product_id'', PStr ''ABC123''), (''quantity'', PInt 25)]),
                    (''message'', PStr ''Product quantity updated to 25'')]"
    using t [THEN conjunct2, THEN conjunct1] by (simp add: abc_world_def empty_world_def)
  have c: "store_calls (snd (process_natural_language_query ?E ?q (PDict []) abc_world)) =
       [StoreUpdate ''products'' ''ABC123'']"
    using t [THEN conjunct2, THEN conjunct2] by (simp add: abc_world_def empty_world_def)
  have d: "snd (process_natural_language_query ?E ?q (PDict []) abc_world) =
       snd (agent_update_product_quantity ?E (PStr ''ABC123'') (PInt 25) ?w1)"
    using t [THEN conjunct1] by (simp add: Let_def split: prod.splits)
  have e: "products (snd (agent_update_product_quantity ?E (PStr ''ABC123'') (PInt 25) ?w1)) =
       [(''ABC123'', [(''name'', PStr ''Gaming Mouse''), (''quantity'', PInt 25), (''updatedAt'', PStr ''1Z'')])]"
    by (simp add: agent_update_product_quantity_def update_product_quantity_def store_update_def
        store_enter_def document_def collection_def set_collection_def timestamp_def utcnow_def
        dict_update_def dict_set_def abc_world_def empty_world_def str_nat_1 Let_def)
  show ?thesis using a b c d e by simp
qed

subsection \<open>The parsing policy\<close>

text \<open>
  What the regular expression finds: nothing when no closing brace follows the first
  opening brace; otherwise the text from the first opening brace to the last closing
  brace, whatever lies between.
\<close>

lemma json_match_None_iff:
  "json_match text = None \<longleftrightarrow> CHR ''}'' \<notin> set (dropWhile (\<lambda>c. c \<noteq> CHR ''{'') text)"
proof (cases "dropWhile (\<lambda>c. c \<noteq> CHR ''{'') text")
  case Nil
  show ?thesis unfolding json_match_def Let_def Nil by simp
next
  case (Cons c u)
  have ne: "dropWhile (\<lambda>c. c \<noteq> CHR ''{'') text \<noteq> []"
    unfolding Cons by simp
  have "\<not> (hd (dropWhile (\<lambda>c. c \<noteq> CHR ''{'') text) \<noteq> CHR ''{'')"
    using ne by (rule hd_dropWhile)
  then have c: "c = CHR ''{''" unfolding Cons by simp
  have "(dropWhile (\<lambda>c. c \<noteq> CHR ''}'') (rev u) = []) = (CHR ''}'' \<notin> set u)"
    by (auto simp: dropWhile_eq_Nil_conv)
  then show ?thesis
    using c unfolding json_match_def Let_def Cons by auto
qed

lemma json_match_Some:
  assumes "json_match text = Some region"
  shows "\<exists>pre mid post. text = pre @ region @ post \<and> region = CHR ''{'' # mid @ [CHR ''}'']
           \<and> CHR ''{'' \<notin> set pre \<and> CHR ''}'' \<notin> set post"
proof -
  define pre where "pre = takeWhile (\<lambda>c. c \<noteq> CHR ''{'') text"
  define t where "t = dropWhile (\<lambda>c. c \<noteq> CHR ''{'') text"
  have whole: "text = pre @ t" by (simp add: pre_def t_def)
  have pre: "CHR ''{'' \<notin> set pre"
    unfolding pre_def by (auto dest: set_takeWhileD)
  from assms have tne: "t \<noteq> []"
    by (auto simp: json_match_def t_def Let_def split: if_splits)
  then have "\<not> (hd t \<noteq> CHR ''{'')"
    unfolding t_def by (rule hd_dropWhile)
  with tne obtain u where t: "t = CHR ''{'' # u"
    by (cases t) auto
  define d where "d = dropWhile (\<lambda>c. c \<noteq> CHR ''}'') (rev u)"
  define post where "post = rev (takeWhile (\<lambda>c. c \<noteq> CHR ''}'') (rev u))"
  from assms t have dne: "d \<noteq> []" and region: "region = CHR ''{'' # rev d"
    by (auto simp: json_match_def t_def [symmetric] d_def Let_def split: if_splits)
  have "rev u = rev post @ d"
    by (simp add: post_def d_def)
  then have u: "u = rev d @ post"
    by (metis rev_append rev_rev_ident)
  have post: "CHR ''}'' \<notin> set post"
    unfolding post_def by (auto dest: set_takeWhileD)
  from dne have "\<not> (hd d \<noteq> CHR ''}'')"
    unfolding d_def by (rule hd_dropWhile)
  with dne obtain d' where d: "d = CHR ''}'' # d'"
    by (cases d) auto
  have "text = pre @ region @ post" "region = CHR ''{'' # rev d' @ [CHR ''}'']"
    using whole t u region d by simp_all
  with pre post show ?thesis by blast
qed

text \<open>
  Claim C3, as amended. Once the model has replied: the reply is parsed whole; if that
  raises \<open>JSONDecodeError\<close>, the text from the first opening brace to the last closing
  brace (not the first balanced region) is parsed instead; when there is no such text,
  the result is \<open>success = False\<close> with the error "Failed to parse AI response" and the
  raw reply; when that text does not parse either, the result is \<open>success = False\<close> with
  the message of the exception, and no raw reply. In every case the method returns a
  dictionary with a boolean \<open>success\<close>: it raises nothing.
\<close>

theorem parsing_policy:
  assumes ctx: "context = PNone \<or> context = PDict kv"
    and reply: "generate_content E (user_prompt query) = Inr text"
  shows
    "(\<forall>v. json_loads E text = Inr v \<longrightarrow>
        process_natural_language_query E query context w =
          on_exception (execute E v (w\<lparr>prompts := prompts w @ [user_prompt query], clock := Suc (clock w)\<rparr>)))
     \<and> (\<forall>e. json_loads E text = Inl e \<and> kind e = JSONDecodeError \<and> json_match text = None \<longrightarrow>
        process_natural_language_query E query context w =
          (PDict [(''success'', PBool False),
                  (''error'', PStr ''Failed to parse AI response''),
                  (''raw_response'', PStr text)],
           w\<lparr>prompts := prompts w @ [user_prompt query], clock := Suc (clock w)\<rparr>))
     \<and> (\<forall>e region v. json_loads E text = Inl e \<and> kind e = JSONDecodeError
            \<and> json_match text = Some region \<and> json_loads E region = Inr v \<longrightarrow>
        process_natural_language_query E query context w =
          on_exception (execute E v (w\<lparr>prompts := prompts w @ [user_prompt query], clock := Suc (clock w)\<rparr>)))
     \<and> (\<forall>e region e2. json_loads E text = Inl e \<and> kind e = JSONDecodeError
            \<and> json_match text = Some region \<and> json_loads E region = Inl e2 \<longrightarrow>
        process_natural_language_query E query context w =
          (PDict [(''success'', PBool False),
                  (''error'', PStr (''Failed to process query: '' @ str_exn e2))],
           w\<lparr>prompts := prompts w @ [user_prompt query], clock := Suc (clock w)\<rparr>))
     \<and> (\<forall>e. json_loads E text = Inl e \<and> kind e \<noteq> JSONDecodeError \<longrightarrow>
        process_natural_language_query E query context w =
          (PDict [(''success'', PBool False),
                  (''error'', PStr (''Failed to process query: '' @ str_exn e))],
           w\<lparr>prompts := prompts w @ [user_prompt query], clock := Suc (clock w)\<rparr>))
     \<and> (\<forall>region. json_match text = Some region \<longrightarrow>
          (\<exists>pre mid post. text = pre @ region @ post \<and> region = CHR ''{'' # mid @ [CHR ''}'']
             \<and> CHR ''{'' \<notin> set pre \<and> CHR ''}'' \<notin> set post))
     \<and> (json_match text = None) = (CHR ''}'' \<notin> set (dropWhile (\<lambda>c. c \<noteq> CHR ''{'') text))
     \<and> has_status (fst (process_natural_language_query E query context w))"
  using nlq_reply [OF ctx reply, of w] json_match_Some [of "text"] json_match_None_iff [of "text"]
    nlq_success [of E query "context" w]
  by (auto simp: parse_response_def on_exception_def)


lemma loads_prose: "loads ''I cannot help with that.'' = Inl (Exn JSONDecodeError ''Expecting value'')"
  by code_simp

lemma loads_wrapped:
  \<open>loads ''Here it is: {"function_name": null, "explanation": "nothing fits"} Done.'' =
     Inl (Exn JSONDecodeError ''Expecting value'')\<close>
  \<open>loads ''{"function_name": null, "explanation": "nothing fits"}'' =
     Inr (PDict [(''function_name'', PNone), (''explanation'', PStr ''nothing fits'')])\<close>
  by code_simp+

theorem parsing_policy_witness:
  \<open>fst (process_natural_language_query (stub_env (Inr ''I cannot help with that.''))
          ''Show me all my products'' (PDict []) empty_world) =
     PDict [(''success'', PBool False),
            (''error'', PStr ''Failed to parse AI response''),
            (''raw_response'', PStr ''I cannot help with that.'')]
   \<and> fst (process_natural_language_query
            (stub_env (Inr ''Here it is: {"function_name": null, "explanation": "nothing fits"} Done.''))
            ''Show me all my products'' (PDict []) empty_world) =
       PDict [(''success'', PBool False),
              (''function_called'', PNone),
              (''explanation'', PStr ''nothing fits''),
              (''available_functions'', PList (map PStr (map fst available_functions)))]\<close>
proof -
  let ?q = "''Show me all my products''"
  let ?t1 = "''I cannot help with that.''"
  let ?t2 = \<open>''Here it is: {"function_name": null, "explanation": "nothing fits"} Done.''\<close>
  let ?g2 = \<open>''{"function_name": null, "explanation": "nothing fits"}''\<close>
  have m1: "json_match ?t1 = None"
    by (simp add: json_match_def)
  have m2: "json_match ?t2 = Some ?g2"
    by (simp add: json_match_def)
  have a: "process_natural_language_query (stub_env (Inr ?t1)) ?q (PDict []) empty_world =
     (PDict [(''success'', PBool False),
            (''error'', PStr ''Failed to parse AI response''),
            (''raw_response'', PStr ?t1)],
      empty_world\<lparr>prompts := prompts empty_world @ [user_prompt ?q], clock := Suc (clock empty_world)\<rparr>)"
    using parsing_policy [of "PDict []" "[]" "stub_env (Inr ?t1)" ?q ?t1 empty_world,
        THEN conjunct2, THEN conjunct1, rule_format, of "Exn JSONDecodeError ''Expecting value''"]
      loads_prose m1
    by simp
  have b: "process_natural_language_query (stub_env (Inr ?t2)) ?q (PDict []) empty_world =
     on_exception (execute (stub_env (Inr ?t2))
        (PDict [(''function_name'', PNone), (''explanation'', PStr ''nothing fits'')])
        (empty_world\<lparr>prompts := prompts empty_world @ [user_prompt ?q], clock := Suc (clock empty_world)\<rparr>))"
    using parsing_policy [of "PDict []" "[]" "stub_env (Inr ?t2)" ?q ?t2 empty_world,
        THEN conjunct2, THEN conjunct2, THEN conjunct1, rule_format,
        of "Exn JSONDecodeError ''Expecting value''" ?g2
           "PDict [(''function_name'', PNone), (''explanation'', PStr ''nothing fits'')]"]
      loads_wrapped m2
    by simp
  show ?thesis
    unfolding a b
    by (simp add: execute_def function_selected_def dict_get_def on_exception_def descriptor_names)
qed

lemma loads_not_json:
  \<open>loads ''{a}'' = Inl (Exn JSONDecodeError ''Expecting value'')\<close>
  \<open>loads ''{"function_name": null} and {"x": 1}'' = Inl (Exn JSONDecodeError ''Extra data'')\<close>
  \<open>loads ''{"function_name": null}'' = Inr (PDict [(''function_name'', PNone)])\<close>
  by code_simp+

text \<open>
  The claim as first stated fails twice. A reply \<open>{a}\<close> has a balanced brace region that
  does not parse: the result carries no raw reply. And in the reply
  \<open>{"function_name": null} and {"x": 1}\<close> the first balanced region parses, but the code
  retries on the text up to the last closing brace, which does not.
\<close>

theorem parsing_policy_counterexample:
  \<open>json_match ''{a}'' = Some ''{a}''
   \<and> result_field (fst (process_natural_language_query (stub_env (Inr ''{a}''))
          ''Show me all my products'' (PDict []) empty_world)) ''success'' = Some (PBool False)
   \<and> result_field (fst (process_natural_language_query (stub_env (Inr ''{a}''))
          ''Show me all my products'' (PDict []) empty_world)) ''raw_response'' = None
   \<and> loads ''{"function_name": null}'' = Inr (PDict [(''function_name'', PNone)])
   \<and> json_match ''{"function_name": null} and {"x": 1}'' = Some ''{"function_name": null} and {"x": 1}''
   \<and> fst (process_natural_language_query (stub_env (Inr ''{"function_name": null} and {"x": 1}''))
          ''Show me all my products'' (PDict []) empty_world) =
       PDict [(''success'', PBool False), (''error'', PStr ''Failed to process query: Extra data'')]\<close>
proof -
  let ?q = "''Show me all my products''"
  let ?t1 = "''{a}''"
  let ?t2 = \<open>''{"function_name": null} and {"x": 1}''\<close>
  have m1: "json_match ?t1 = Some ?t1"
    by (simp add: json_match_def)
  have m2: "json_match ?t2 = Some ?t2"
    by (simp add: json_match_def)
  have a: "fst (process_natural_language_query (stub_env (Inr ?t1)) ?q (PDict []) empty_world) =
     PDict [(''success'', PBool False), (''error'', PStr ''Failed to process query: Expecting value'')]"
    using nlq_reply [of "PDict []" "[]" "stub_env (Inr ?t1)" ?q ?t1 empty_world]
    by (simp add: parse_response_def loads_not_json m1 on_exception_def)
  have b: "fst (process_natural_language_query (stub_env (Inr ?t2)) ?q (PDict []) empty_world) =
     PDict [(''success'', PBool False), (''error'', PStr ''Failed to process query: Extra data'')]"
    using nlq_reply [of "PDict []" "[]" "stub_env (Inr ?t2)" ?q ?t2 empty_world]
    by (simp add: parse_response_def loads_not_json m2 on_exception_def)
  show ?thesis
    unfolding a b using m1 m2 loads_not_json(3) by (simp add: result_field_def)
qed

subsection \<open>Order extraction when the model fails\<close>

text \<open>
  Claim C2, as amended. When the model call of \<open>process_order_message\<close> raises, the
  result is well formed, with \<open>success = False\<close>, the message of the exception, an empty
  item list and the analysis text "Failed to process with AI". The one-item placeholder
  belongs to \<open>_parse_ai_response\<close>, after the model has replied: with the first 200
  characters of the reply as analysis when the reply holds no brace region, and with
  "Original message: " and the chat message when the region does not parse. In each case
  the model has been called once.
\<close>

theorem order_message_fallback:
  \<open>(\<forall>e. generate_content E (order_prompt chat_message user_id) = Inl e \<longrightarrow>
       fst (process_order_message E chat_message user_id w) =
         PDict [(''success'', PBool False),
                (''error'', PStr (''Failed to process order: '' @ str_exn e)),
                (''order_details'',
                 PDict [(''items'', PList []),
                        (''special_instructions'', PStr []),
                        (''delivery_preference'', PStr ''not specified''),
                        (''additional_requirements'', PStr []),
                        (''ai_analysis'', PStr ''Failed to process with AI'')])])
   \<and> (\<forall>reply. generate_content E (order_prompt chat_message user_id) = Inr reply
          \<and> json_match reply = None \<longrightarrow>
       fst (process_order_message E chat_message user_id w) =
         PDict [(''success'', PBool True),
                (''order_details'',
                 PDict [(''items'', PList [PDict [(''name'', PStr ''order from chat''),
                                                  (''quantity'', PInt 1)]]),
                        (''special_instructions'', PStr []),
                        (''delivery_preference'', PStr ''not specified''),
                        (''additional_requirements'', PStr []),
                        (''ai_analysis'', PStr (take 200 reply))]),
                (''ai_analysis'', PStr (take 200 reply)),
                (''processed_message'', PStr chat_message)])
   \<and> (\<forall>reply region e. generate_content E (order_prompt chat_message user_id) = Inr reply
          \<and> json_match reply = Some region \<and> json_loads E region = Inl e \<longrightarrow>
       fst (process_order_message E chat_message user_id w) =
         PDict [(''success'', PBool True),
                (''order_details'',
                 PDict [(''items'', PList [PDict [(''name'', PStr ''order from chat''),
                                                  (''quantity'', PInt 1)]]),
                        (''special_instructions'', PStr []),
                        (''delivery_preference'', PStr ''not specified''),
                        (''additional_requirements'', PStr []),
                        (''ai_analysis'', PStr (''Original message: '' @ chat_message))]),
                (''ai_analysis'', PStr (''Original message: '' @ chat_message)),
                (''processed_message'', PStr chat_message)])
   \<and> snd (process_order_message E chat_message user_id w) =
       w\<lparr>prompts := prompts w @ [order_prompt chat_message user_id], clock := Suc (clock w)\<rparr>\<close>
  by (auto simp: process_order_message_def call_model_def parse_ai_response_def
      placeholder_items_def dict_get_def Let_def split: sum.splits pyval.splits option.splits)

theorem order_message_fallback_witness:
  \<open>fst (process_order_message (stub_env (Inl (Exn OtherError ''quota exceeded'')))
          ''two pizzas please'' ''u1'' empty_world) =
     PDict [(''success'', PBool False),
            (''error'', PStr ''Failed to process order: quota exceeded''),
            (''order_details'',
             PDict [(''items'', PList []),
                    (''special_instructions'', PStr []),
                    (''delivery_preference'', PStr ''not specified''),
                    (''additional_requirements'', PStr []),
                    (''ai_analysis'', PStr ''Failed to process with AI'')])]
   \<and> fst (process_order_message (stub_env (Inr ''Sorry, I did not understand.''))
          ''two pizzas please'' ''u1'' empty_world) =
     PDict [(''success'', PBool True),
            (''order_details'',
             PDict [(''items'', PList [PDict [(''name'', PStr ''order from chat''),
                                              (''quantity'', PInt 1)]]),
                    (''special_instructions'', PStr []),
                    (''delivery_preference'', PStr ''not specified''),
                    (''additional_requirements'', PStr []),
                    (''ai_analysis'', PStr ''Sorry, I did not understand.'')]),
            (''ai_analysis'', PStr ''Sorry, I did not understand.''),
            (''processed_message'', PStr ''two pizzas please'')]\<close>
proof -
  have m: "json_match ''Sorry, I did not understand.'' = None"
    by (simp add: json_match_def)
  show ?thesis
    using order_message_fallback [of "stub_env (Inl (Exn OtherError ''quota exceeded''))"
          "''two pizzas please''" "''u1''" empty_world, THEN conjunct1, rule_format,
          of "Exn OtherError ''quota exceeded''"]
      order_message_fallback [of "stub_env (Inr ''Sorry, I did not understand.'')"
          "''two pizzas please''" "''u1''" empty_world, THEN conjunct2, THEN conjunct1,
          rule_format, of "''Sorry, I did not understand.''"]
      m
    by simp
qed

text \<open>
  The claim as first stated fails: when the client raises, the item list is empty, not the
  placeholder, and the analysis text is a fixed sentence, not the chat message.
\<close>

theorem order_message_counterexample:
  \<open>result_field (fst (process_order_message (stub_env (Inl (Exn OtherError ''quota exceeded'')))
          ''two pizzas please'' ''u1'' empty_world)) ''order_details'' =
     Some (PDict [(''items'', PList []),
                  (''special_instructions'', PStr []),
                  (''delivery_preference'', PStr ''not specified''),
                  (''additional_requirements'', PStr []),
                  (''ai_analysis'', PStr ''Failed to process with AI'')])
   \<and> PList [] \<noteq> placeholder_items
   \<and> PStr ''Failed to process with AI'' \<noteq> PStr ''two pizzas please''\<close>
  by (simp add: process_order_message_def call_model_def result_field_def placeholder_items_def)

subsection \<open>Blank queries\<close>







end
